theory Spec2Isabelle
  imports Complex_Main
begin

section \<open>JavaScript numbers\<close>

text \<open>
  A JavaScript Number is a finite value, one of the two infinities, or NaN.  Finite
  values are modelled by reals, so the arithmetic on them is exact: rounding, overflow
  of a finite product to Infinity, underflow and the sign of zero are not modelled.  The
  rules for the special values are those of IEEE 754, which the claims about
  non-finite inputs depend on.  The value of a finite computation in the model is
  therefore the value in the code only where the doubles are exact; in the code the
  cosine of a vector with itself can be 1.0000000000000002, and squares of large
  finite values overflow.  The theorems below about finite scores compare a score
  with the threshold or with the bounds of the schema and hold whatever the score is;
  the concrete scores of the scenarios are those of the exact arithmetic.
\<close>

datatype jsnum = Fin real | PosInf | NegInf | NaN

fun isNaN :: "jsnum \<Rightarrow> bool" where
  "isNaN NaN = True"
| "isNaN _ = False"

text \<open>\<open>x + y\<close>: Infinity plus -Infinity is NaN.\<close>

fun js_add :: "jsnum \<Rightarrow> jsnum \<Rightarrow> jsnum" where
  "js_add NaN _ = NaN"
| "js_add _ NaN = NaN"
| "js_add (Fin x) (Fin y) = Fin (x + y)"
| "js_add PosInf NegInf = NaN"
| "js_add NegInf PosInf = NaN"
| "js_add PosInf _ = PosInf"
| "js_add NegInf _ = NegInf"
| "js_add (Fin _) PosInf = PosInf"
| "js_add (Fin _) NegInf = NegInf"

text \<open>\<open>x * y\<close>: zero times an infinity is NaN; otherwise the signs multiply.\<close>

fun js_sign_inf :: "bool \<Rightarrow> jsnum" where
  "js_sign_inf True = PosInf"
| "js_sign_inf False = NegInf"

fun js_mul :: "jsnum \<Rightarrow> jsnum \<Rightarrow> jsnum" where
  "js_mul NaN _ = NaN"
| "js_mul _ NaN = NaN"
| "js_mul (Fin x) (Fin y) = Fin (x * y)"
| "js_mul PosInf PosInf = PosInf"
| "js_mul PosInf NegInf = NegInf"
| "js_mul NegInf PosInf = NegInf"
| "js_mul NegInf NegInf = PosInf"
| "js_mul (Fin x) PosInf = (if x = 0 then NaN else js_sign_inf (0 < x))"
| "js_mul (Fin x) NegInf = (if x = 0 then NaN else js_sign_inf (x < 0))"
| "js_mul PosInf (Fin y) = (if y = 0 then NaN else js_sign_inf (0 < y))"
| "js_mul NegInf (Fin y) = (if y = 0 then NaN else js_sign_inf (y < 0))"

text \<open>
  \<open>x / y\<close>: an infinity over an infinity and zero over zero are NaN, a finite value over
  an infinity is zero, a non-zero value over zero is an infinity (of the sign of the
  numerator, the zero being taken as positive).
\<close>

fun js_div :: "jsnum \<Rightarrow> jsnum \<Rightarrow> jsnum" where
  "js_div NaN _ = NaN"
| "js_div _ NaN = NaN"
| "js_div (Fin x) (Fin y) =
     (if y = 0 then (if x = 0 then NaN else js_sign_inf (0 < x)) else Fin (x / y))"
| "js_div (Fin _) PosInf = Fin 0"
| "js_div (Fin _) NegInf = Fin 0"
| "js_div PosInf (Fin y) = js_sign_inf (0 \<le> y)"
| "js_div NegInf (Fin y) = js_sign_inf (y < 0)"
| "js_div _ _ = NaN"

text \<open>\<open>Math.sqrt\<close>: NaN on a negative argument, Infinity on Infinity.\<close>

fun Math_sqrt :: "jsnum \<Rightarrow> jsnum" where
  "Math_sqrt (Fin x) = (if x < 0 then NaN else Fin (sqrt x))"
| "Math_sqrt PosInf = PosInf"
| "Math_sqrt NegInf = NaN"
| "Math_sqrt NaN = NaN"

text \<open>\<open>x < y\<close>: every comparison with NaN is false.\<close>

fun js_lt :: "jsnum \<Rightarrow> jsnum \<Rightarrow> bool" where
  "js_lt NaN _ = False"
| "js_lt _ NaN = False"
| "js_lt (Fin x) (Fin y) = (x < y)"
| "js_lt NegInf NegInf = False"
| "js_lt NegInf _ = True"
| "js_lt PosInf _ = False"
| "js_lt (Fin _) PosInf = True"
| "js_lt (Fin _) NegInf = False"


section \<open>The similarity oracle\<close>

subsection \<open>Local strategy: \<open>computeCosineSimilarity\<close>\<close>

text \<open>
  The \<open>for\<close> loop of \<open>computeCosineSimilarity\<close>, on the elements still to be read and
  the accumulators \<open>(dot, normA, normB)\<close>.  The elements of the lists stand for
  \<open>Number(a[i])\<close> and \<open>Number(b[i])\<close>.  \<open>None\<close> is the early \<open>return 0\<close> on a NaN.  The
  loop runs over the indices of \<open>a\<close>; a read past the end of \<open>b\<close> would give
  \<open>Number(undefined)\<close>, which is NaN.
\<close>

fun cosine_loop ::
  "jsnum list \<Rightarrow> jsnum list \<Rightarrow> jsnum \<times> jsnum \<times> jsnum \<Rightarrow> (jsnum \<times> jsnum \<times> jsnum) option" where
  "cosine_loop [] _ acc = Some acc"
| "cosine_loop (va # as) [] acc = None"
| "cosine_loop (va # as) (vb # bs) (dot, normA, normB) =
     (if isNaN va \<or> isNaN vb then None
      else cosine_loop as bs
             (js_add dot (js_mul va vb), js_add normA (js_mul va va), js_add normB (js_mul vb vb)))"

text \<open>
  \<open>computeCosineSimilarity(a, b)\<close>.  The arguments are arrays (the \<open>Array.isArray\<close> tests
  are the type of the model).
\<close>

definition computeCosineSimilarity :: "jsnum list \<Rightarrow> jsnum list \<Rightarrow> jsnum" where
  "computeCosineSimilarity a b =
     (if length a = 0 \<or> length b = 0 \<or> length a \<noteq> length b then Fin 0
      else case cosine_loop a b (Fin 0, Fin 0, Fin 0) of
             None \<Rightarrow> Fin 0
           | Some (dot, normA, normB) \<Rightarrow>
               if normA = Fin 0 \<or> normB = Fin 0 then Fin 0
               else js_div dot (js_mul (Math_sqrt normA) (Math_sqrt normB)))"

subsection \<open>Remote strategy: \<open>faceppCompare\<close>\<close>

text \<open>
  What the provider call can come back with: the request fails (network error, timeout
  after 15 seconds, HTTP error status), or it answers with a body; the body may be
  missing, and its \<open>confidence\<close> field is a number or something else.
\<close>

datatype compare_reply =
    RequestFailed
  | NoData
  | Data "jsnum option"

datatype js_error =
    AxiosError
  | InvalidCompareResponse
  | TypeError
  | ValidationError
  | MongoServerError int
  | DatabaseError

text \<open>\<open>faceppCompare\<close>, as a function of the provider's reply.\<close>

fun faceppCompare :: "compare_reply \<Rightarrow> js_error + jsnum" where
  "faceppCompare RequestFailed = Inl AxiosError"
| "faceppCompare NoData = Inl InvalidCompareResponse"
| "faceppCompare (Data None) = Inl InvalidCompareResponse"
| "faceppCompare (Data (Some confidence)) = Inr (js_div confidence (Fin 100))"


section \<open>The data model\<close>

text \<open>
  Request fields come from a JSON body and need not be strings.  A field is absent
  (\<open>undefined\<close> or \<open>null\<close>), a string, or some other value, of which only the truthiness
  matters.
\<close>

datatype jsval = Undefined | JString string | JOther bool

fun truthy :: "jsval \<Rightarrow> bool" where
  "truthy Undefined = False"
| "truthy (JString s) = (s \<noteq> [])"
| "truthy (JOther t) = t"

definition toUpperChar :: "char \<Rightarrow> char" where
  "toUpperChar c =
     (let n = (of_char c :: nat) in if 97 \<le> n \<and> n \<le> 122 then char_of (n - 32) else c)"

text \<open>
  \<open>toUpperCase()\<close> of a string, on ASCII text: the letters a to z are mapped, every
  other character is left as it is.  JavaScript also maps the cased letters outside
  ASCII.  The handlers use the result only as a key to compare with stored codes.
\<close>

definition toUpperCase :: "string \<Rightarrow> string" where
  "toUpperCase s = map toUpperChar s"

text \<open>
  \<open>notes?.trim()\<close> throws a TypeError on a value that is neither absent nor a string.
  The trimmed text itself is stored in a field that no check reads and is not kept.
\<close>

fun notes_trim :: "jsval \<Rightarrow> unit option" where
  "notes_trim Undefined = Some ()"
| "notes_trim (JString s) = Some ()"
| "notes_trim (JOther t) = None"

datatype role = Admin | Student

record user =
  u_role :: role
  u_studentId :: string
  u_studentName :: string
  u_isActive :: bool
  u_enrolledCourses :: "string list"
  u_faceEncodings :: "jsnum list"
  u_faceToken :: "string option"

record course =
  c_courseCode :: string
  c_isActive :: bool

datatype status = Present | Absent | Late | Excused

text \<open>
  An attendance document.  Times are milliseconds since the epoch.  The \<open>date\<close> field,
  the text \<open>YYYY-MM-DD\<close> in the source, is represented by the number of the day it
  names, counted from 1970-01-01.  The fields \<open>location\<close>, \<open>deviceInfo\<close>, \<open>ipAddress\<close>,
  \<open>method\<close> and \<open>notes\<close> are stored as given and never read by the handlers.
\<close>

record attendance =
  a_studentId :: string
  a_studentName :: string
  a_courseCode :: string
  a_timestamp :: int
  a_date :: int
  a_status :: status
  a_confidenceScore :: jsnum
  a_isLate :: bool
  a_lateMinutes :: int

text \<open>
  The message of a late notification is the template
  \<open>You were marked late for ${courseCode} by ${lateMinutes} minutes.\<close>, kept as its two
  interpolated values.
\<close>

datatype message = LateMessage string int

record notification =
  n_userId :: string
  n_title :: string
  n_message :: message
  n_type :: string
  n_courseCode :: string

record db =
  users :: "user list"
  courses :: "course list"
  attendances :: "attendance list"
  notifications :: "notification list"

record request =
  r_studentId :: string
  r_courseCode :: jsval
  r_faceData :: "jsnum list option"
  r_imageBase64 :: jsval
  r_notes :: jsval

text \<open>
  The awaited operations of a handler, in the order they are issued, form its trace.
  The oracle is \<open>computeCosineSimilarity\<close> on one endpoint and \<open>faceppCompare\<close> on the
  other.
\<close>

datatype db_op = FindUser | FindCourse | FindAttendance | SaveAttendance | SaveNotification

datatype event = Db db_op | OracleCall

text \<open>
  What a handler does not control: the server's time zone (minutes east of UTC, taken as
  constant over the day), the clock at each \<open>new Date()\<close> of the handler, the provider's
  reply, and which store operations fail for reasons of their own (connection lost,
  timeout).
\<close>

record env =
  e_tzOffset :: int
  e_clock_today :: int
  e_clock_current :: int
  e_clock_start :: int
  e_clock_stamp :: int
  e_compare_reply :: compare_reply
  e_fault :: "db_op \<Rightarrow> bool"

record response_data =
  d_courseCode :: string
  d_timestamp :: int
  d_status :: status
  d_confidenceScore :: jsnum
  d_isLate :: bool
  d_lateMinutes :: int

datatype response =
    ErrorResponse nat string
  | SuccessResponse string response_data

fun is_success :: "response \<Rightarrow> bool" where
  "is_success (SuccessResponse _ _) = True"
| "is_success (ErrorResponse _ _) = False"


section \<open>The store\<close>

definition User_findOne :: "string \<Rightarrow> db \<Rightarrow> user option" where
  "User_findOne sid s =
     find (\<lambda>u. u_studentId u = sid \<and> u_role u = Student \<and> u_isActive u) (users s)"

definition Course_findOne :: "string \<Rightarrow> db \<Rightarrow> course option" where
  "Course_findOne code s = find (\<lambda>c. c_courseCode c = code \<and> c_isActive c) (courses s)"

definition Attendance_findOne :: "string \<Rightarrow> string \<Rightarrow> int \<Rightarrow> db \<Rightarrow> attendance option" where
  "Attendance_findOne sid code day s =
     find (\<lambda>a. a_studentId a = sid \<and> a_courseCode a = code \<and> a_date a = day) (attendances s)"

text \<open>The key of the unique index \<open>{studentId: 1, courseCode: 1, date: 1}\<close>.\<close>

definition index_key :: "attendance \<Rightarrow> string \<times> string \<times> int" where
  "index_key a = (a_studentId a, a_courseCode a, a_date a)"

text \<open>
  Schema validation of an attendance document: \<open>studentId\<close>, \<open>courseCode\<close> and \<open>date\<close>
  are required, and \<open>confidenceScore\<close> is a number (NaN does not cast) between
  \<open>min: 0\<close> and \<open>max: 1\<close>.
\<close>

definition attendance_valid :: "attendance \<Rightarrow> bool" where
  "attendance_valid a =
     (a_studentId a \<noteq> [] \<and> a_courseCode a \<noteq> [] \<and>
      (case a_confidenceScore a of Fin x \<Rightarrow> 0 \<le> x \<and> x \<le> 1 | _ \<Rightarrow> False))"

text \<open>
  \<open>attendance.save()\<close>: validation first, then the insert, which the unique index
  refuses with error code 11000 when a document with the same key is there.  A refused
  save leaves the collection as it was.
\<close>

definition Attendance_save :: "bool \<Rightarrow> attendance \<Rightarrow> db \<Rightarrow> js_error + db" where
  "Attendance_save fault a s =
     (if \<not> attendance_valid a then Inl ValidationError
      else if fault then Inl DatabaseError
      else if index_key a \<in> set (map index_key (attendances s)) then Inl (MongoServerError 11000)
      else Inr (s\<lparr>attendances := attendances s @ [a]\<rparr>))"

fun error_code :: "js_error \<Rightarrow> int option" where
  "error_code (MongoServerError c) = Some c"
| "error_code _ = None"

text \<open>
  \<open>createNotification\<close>: the \<open>try\<close>/\<open>catch\<close> around the save logs the error and returns
  normally, so the caller sees no difference.
\<close>

definition createNotification :: "bool \<Rightarrow> notification \<Rightarrow> db \<Rightarrow> db" where
  "createNotification fault n s =
     (if n_userId n = [] \<or> n_title n = [] then s
      else if fault then s
      else s\<lparr>notifications := notifications s @ [n]\<rparr>)"

text \<open>\<open>Attendance.deleteMany({ studentId })\<close>, issued when an administrator deletes a student.\<close>

definition Attendance_deleteMany :: "string \<Rightarrow> db \<Rightarrow> db" where
  "Attendance_deleteMany sid s =
     s\<lparr>attendances := filter (\<lambda>a. a_studentId a \<noteq> sid) (attendances s)\<rparr>"


section \<open>Dates\<close>

definition MS_PER_MINUTE :: int where
  "MS_PER_MINUTE = 1000 * 60"

definition MS_PER_DAY :: int where
  "MS_PER_DAY = 86400000"

text \<open>
  \<open>new Date().toISOString().split('T')[0]\<close>: \<open>toISOString\<close> prints the instant in UTC, so
  the date part names the UTC day of the instant.
\<close>

definition toISODate :: "int \<Rightarrow> int" where
  "toISODate t = t div MS_PER_DAY"

text \<open>The day of the same instant on the server's local calendar.\<close>

definition localDate :: "int \<Rightarrow> int \<Rightarrow> int" where
  "localDate tz t = (t + tz * MS_PER_MINUTE) div MS_PER_DAY"

text \<open>\<open>d.setHours(9, 0, 0, 0)\<close>: 09:00:00.000 local time on the local day of \<open>d\<close>.\<close>

definition setHours9 :: "int \<Rightarrow> int \<Rightarrow> int" where
  "setHours9 tz d =
     localDate tz d * MS_PER_DAY + 9 * 60 * MS_PER_MINUTE - tz * MS_PER_MINUTE"

text \<open>
  The lateness computation, which both handlers contain word for word: the result is
  \<open>(status, isLate, lateMinutes)\<close>.
\<close>

definition classify :: "int \<Rightarrow> int \<Rightarrow> status \<times> bool \<times> int" where
  "classify currentTime classStartTime =
     (if currentTime > classStartTime then
        (let diffMinutes = (currentTime - classStartTime) div (1000 * 60)
         in if diffMinutes > 15 then (Late, True, diffMinutes) else (Present, False, 0))
      else (Present, False, 0))"


section \<open>The attendance handlers\<close>

text \<open>
  A handler runs in three stages: the checks that need no oracle, the verification of
  the face with the classification of the arrival, and the commit.  Between the
  stages the handler awaits, and handlers of other requests may run.  A stage that
  ends the request returns the response with the trace so far; an exception is
  answered by the handler's \<open>catch\<close> block.  On a value that is not a string,
  \<open>courseCode.toUpperCase()\<close> throws a TypeError.
\<close>

record ctx =
  x_student :: user
  x_courseCode :: string
  x_today :: int

record pending =
  p_attendance :: attendance
  p_isLate :: bool
  p_lateMinutes :: int
  p_courseCode :: string

datatype decision = Reject response "event list" | Proceed pending "event list"

subsection \<open>\<open>POST /api/student/attendance\<close>\<close>

definition SIMILARITY_THRESHOLD :: jsnum where
  "SIMILARITY_THRESHOLD = Fin 0.85"

text \<open>The \<open>catch\<close> block: error code 11000 is answered as a duplicate, the rest as a fault.\<close>

definition attendance_catch :: "js_error \<Rightarrow> response" where
  "attendance_catch error =
     (if error_code error = Some 11000 then ErrorResponse 400 ''Attendance already marked for today''
      else ErrorResponse 500 ''Failed to mark attendance. Please try again.'')"

definition attendance_checks ::
  "env \<Rightarrow> request \<Rightarrow> db \<Rightarrow> (response \<times> event list) + (ctx \<times> jsnum list \<times> event list)" where
  "attendance_checks env req s =
     (if \<not> truthy (r_courseCode req) then Inl (ErrorResponse 400 ''Course code is required'', [])
      else if e_fault env FindUser then Inl (attendance_catch DatabaseError, [Db FindUser])
      else (case User_findOne (r_studentId req) s of
        None \<Rightarrow> Inl (ErrorResponse 404 ''Student not found'', [Db FindUser])
      | Some student \<Rightarrow>
         (case r_courseCode req of
            Undefined \<Rightarrow> Inl (attendance_catch TypeError, [Db FindUser])
          | JOther t \<Rightarrow> Inl (attendance_catch TypeError, [Db FindUser])
          | JString courseCode \<Rightarrow>
              if toUpperCase courseCode \<notin> set (u_enrolledCourses student)
              then Inl (ErrorResponse 400 ''You are not enrolled in this course'', [Db FindUser])
              else if e_fault env FindCourse
              then Inl (attendance_catch DatabaseError, [Db FindUser, Db FindCourse])
              else (case Course_findOne (toUpperCase courseCode) s of
                None \<Rightarrow> Inl (ErrorResponse 404 ''Course not found'', [Db FindUser, Db FindCourse])
              | Some course \<Rightarrow>
                 (let today = toISODate (e_clock_today env) in
                  if e_fault env FindAttendance
                  then Inl (attendance_catch DatabaseError, [Db FindUser, Db FindCourse, Db FindAttendance])
                  else (case Attendance_findOne (r_studentId req) (toUpperCase courseCode) today s of
                    Some existingAttendance \<Rightarrow>
                      Inl (ErrorResponse 400 ''Attendance already marked for today in this course'',
                           [Db FindUser, Db FindCourse, Db FindAttendance])
                  | None \<Rightarrow>
                      if u_faceEncodings student = []
                      then Inl (ErrorResponse 400
                                  ''No registered face encodings found. Please register your face first.'',
                                [Db FindUser, Db FindCourse, Db FindAttendance])
                      else (case r_faceData req of
                        None \<Rightarrow>
                          Inl (ErrorResponse 400 ''Invalid or missing face data for verification'',
                               [Db FindUser, Db FindCourse, Db FindAttendance])
                      | Some faceData \<Rightarrow>
                          if length faceData \<noteq> length (u_faceEncodings student)
                          then Inl (ErrorResponse 400 ''Invalid or missing face data for verification'',
                                    [Db FindUser, Db FindCourse, Db FindAttendance])
                          else Inr (\<lparr>x_student = student, x_courseCode = courseCode, x_today = today\<rparr>,
                                    faceData,
                                    [Db FindUser, Db FindCourse, Db FindAttendance]))))))))"

text \<open>
  The document built by \<open>new Attendance({...})\<close>; \<open>timestamp\<close> takes its default, the
  clock at that moment.
\<close>

definition new_Attendance :: "env \<Rightarrow> request \<Rightarrow> ctx \<Rightarrow> jsnum \<Rightarrow> status \<times> bool \<times> int \<Rightarrow> attendance" where
  "new_Attendance env req c similarity cl =
     \<lparr>a_studentId = r_studentId req,
      a_studentName = u_studentName (x_student c),
      a_courseCode = toUpperCase (x_courseCode c),
      a_timestamp = e_clock_stamp env,
      a_date = x_today c,
      a_status = fst cl,
      a_confidenceScore = similarity,
      a_isLate = fst (snd cl),
      a_lateMinutes = snd (snd cl)\<rparr>"

text \<open>
  From the similarity on, the two handlers run the same statements up to the save:
  the lateness computation and the construction of the document, whose \<open>notes?.trim()\<close>
  may throw.  The exception is passed to the \<open>catch\<close> block of the handler.
\<close>

definition classify_and_build ::
  "(js_error \<Rightarrow> response) \<Rightarrow> env \<Rightarrow> request \<Rightarrow> ctx \<Rightarrow> jsnum \<Rightarrow> event list \<Rightarrow> decision" where
  "classify_and_build catch env req c similarity tr =
     (let currentTime = e_clock_current env;
          classStartTime = setHours9 (e_tzOffset env) (e_clock_start env);
          cl = classify currentTime classStartTime
      in case notes_trim (r_notes req) of
           None \<Rightarrow> Reject (catch TypeError) tr
         | Some _ \<Rightarrow>
             Proceed \<lparr>p_attendance = new_Attendance env req c similarity cl,
                      p_isLate = fst (snd cl),
                      p_lateMinutes = snd (snd cl),
                      p_courseCode = x_courseCode c\<rparr> tr)"

definition attendance_verify :: "env \<Rightarrow> request \<Rightarrow> ctx \<Rightarrow> jsnum list \<Rightarrow> event list \<Rightarrow> decision" where
  "attendance_verify env req c faceData tr =
     (let similarity = computeCosineSimilarity (u_faceEncodings (x_student c)) faceData
      in if js_lt similarity SIMILARITY_THRESHOLD
         then Reject (ErrorResponse 400 ''Face verification failed. Please try again.'') (tr @ [OracleCall])
         else classify_and_build attendance_catch env req c similarity (tr @ [OracleCall]))"

definition attendance_decide :: "env \<Rightarrow> request \<Rightarrow> db \<Rightarrow> decision" where
  "attendance_decide env req s =
     (case attendance_checks env req s of
        Inl (res, tr) \<Rightarrow> Reject res tr
      | Inr (c, faceData, tr) \<Rightarrow> attendance_verify env req c faceData tr)"

text \<open>
  The commit, the same statements in both handlers: the save, whose exception goes to
  the handler's \<open>catch\<close> block, then the notification of a late arrival, then the
  response built from the saved document.
\<close>

definition late_notification :: "pending \<Rightarrow> notification" where
  "late_notification p =
     \<lparr>n_userId = a_studentId (p_attendance p),
      n_title = ''Late Attendance Recorded'',
      n_message = LateMessage (p_courseCode p) (p_lateMinutes p),
      n_type = ''warning'',
      n_courseCode = toUpperCase (p_courseCode p)\<rparr>"

definition response_of :: "attendance \<Rightarrow> response_data" where
  "response_of savedAttendance =
     \<lparr>d_courseCode = a_courseCode savedAttendance,
      d_timestamp = a_timestamp savedAttendance,
      d_status = a_status savedAttendance,
      d_confidenceScore = a_confidenceScore savedAttendance,
      d_isLate = a_isLate savedAttendance,
      d_lateMinutes = a_lateMinutes savedAttendance\<rparr>"

definition commit ::
  "(js_error \<Rightarrow> response) \<Rightarrow> env \<Rightarrow> pending \<Rightarrow> event list \<Rightarrow> db \<Rightarrow> response \<times> db \<times> event list" where
  "commit catch env p tr s =
     (case Attendance_save (e_fault env SaveAttendance) (p_attendance p) s of
        Inl error \<Rightarrow> (catch error, s, tr @ [Db SaveAttendance])
      | Inr s' \<Rightarrow>
          if p_isLate p
          then (SuccessResponse ''Attendance marked successfully (Late)'' (response_of (p_attendance p)),
                createNotification (e_fault env SaveNotification) (late_notification p) s',
                tr @ [Db SaveAttendance, Db SaveNotification])
          else (SuccessResponse ''Attendance marked successfully'' (response_of (p_attendance p)),
                s',
                tr @ [Db SaveAttendance]))"

definition attendance :: "env \<Rightarrow> request \<Rightarrow> db \<Rightarrow> response \<times> db \<times> event list" where
  "attendance env req s =
     (case attendance_decide env req s of
        Reject res tr \<Rightarrow> (res, s, tr)
      | Proceed p tr \<Rightarrow> commit attendance_catch env p tr s)"

subsection \<open>\<open>POST /api/student/attendance-image\<close>\<close>

definition SIMILARITY_THRESHOLD_image :: jsnum where
  "SIMILARITY_THRESHOLD_image = Fin 0.85"

text \<open>The \<open>catch\<close> block of this handler answers every exception as a fault.\<close>

definition attendance_image_catch :: "js_error \<Rightarrow> response" where
  "attendance_image_catch error = ErrorResponse 500 ''Failed to mark attendance. Please try again.''"

text \<open>\<open>!student.faceToken\<close>: no token, or the empty string.\<close>

definition no_faceToken :: "user \<Rightarrow> bool" where
  "no_faceToken student = (case u_faceToken student of None \<Rightarrow> True | Some t \<Rightarrow> t = [])"

definition attendance_image_checks ::
  "env \<Rightarrow> request \<Rightarrow> db \<Rightarrow> (response \<times> event list) + (ctx \<times> event list)" where
  "attendance_image_checks env req s =
     (if \<not> truthy (r_courseCode req) then Inl (ErrorResponse 400 ''Course code is required'', [])
      else if \<not> truthy (r_imageBase64 req) then Inl (ErrorResponse 400 ''imageBase64 is required'', [])
      else if e_fault env FindUser then Inl (attendance_image_catch DatabaseError, [Db FindUser])
      else (case User_findOne (r_studentId req) s of
        None \<Rightarrow> Inl (ErrorResponse 404 ''Student not found'', [Db FindUser])
      | Some student \<Rightarrow>
         (case r_courseCode req of
            Undefined \<Rightarrow> Inl (attendance_image_catch TypeError, [Db FindUser])
          | JOther t \<Rightarrow> Inl (attendance_image_catch TypeError, [Db FindUser])
          | JString courseCode \<Rightarrow>
              if toUpperCase courseCode \<notin> set (u_enrolledCourses student)
              then Inl (ErrorResponse 400 ''You are not enrolled in this course'', [Db FindUser])
              else if e_fault env FindCourse
              then Inl (attendance_image_catch DatabaseError, [Db FindUser, Db FindCourse])
              else (case Course_findOne (toUpperCase courseCode) s of
                None \<Rightarrow> Inl (ErrorResponse 404 ''Course not found'', [Db FindUser, Db FindCourse])
              | Some course \<Rightarrow>
                 (let today = toISODate (e_clock_today env) in
                  if e_fault env FindAttendance
                  then Inl (attendance_image_catch DatabaseError,
                            [Db FindUser, Db FindCourse, Db FindAttendance])
                  else (case Attendance_findOne (r_studentId req) (toUpperCase courseCode) today s of
                    Some existingAttendance \<Rightarrow>
                      Inl (ErrorResponse 400 ''Attendance already marked for today in this course'',
                           [Db FindUser, Db FindCourse, Db FindAttendance])
                  | None \<Rightarrow>
                      if no_faceToken student
                      then Inl (ErrorResponse 400
                                  ''No registered face found. Please register your face first.'',
                                [Db FindUser, Db FindCourse, Db FindAttendance])
                      else Inr (\<lparr>x_student = student, x_courseCode = courseCode, x_today = today\<rparr>,
                                [Db FindUser, Db FindCourse, Db FindAttendance])))))))"

definition attendance_image_verify :: "env \<Rightarrow> request \<Rightarrow> ctx \<Rightarrow> event list \<Rightarrow> decision" where
  "attendance_image_verify env req c tr =
     (case faceppCompare (e_compare_reply env) of
        Inl e \<Rightarrow> Reject (ErrorResponse 400 ''Face verification failed. Please try again.'') (tr @ [OracleCall])
      | Inr similarity \<Rightarrow>
          if js_lt similarity SIMILARITY_THRESHOLD_image
          then Reject (ErrorResponse 400 ''Face verification failed. Please try again.'') (tr @ [OracleCall])
          else classify_and_build attendance_image_catch env req c similarity (tr @ [OracleCall]))"

definition attendance_image_decide :: "env \<Rightarrow> request \<Rightarrow> db \<Rightarrow> decision" where
  "attendance_image_decide env req s =
     (case attendance_image_checks env req s of
        Inl (res, tr) \<Rightarrow> Reject res tr
      | Inr (c, tr) \<Rightarrow> attendance_image_verify env req c tr)"

definition attendance_image :: "env \<Rightarrow> request \<Rightarrow> db \<Rightarrow> response \<times> db \<times> event list" where
  "attendance_image env req s =
     (case attendance_image_decide env req s of
        Reject res tr \<Rightarrow> (res, s, tr)
      | Proceed p tr \<Rightarrow> commit attendance_image_catch env p tr s)"


subsection \<open>Ranges of scores\<close>


subsection \<open>The score at the verification step\<close>

text \<open>
  The similarity that a run obtains from the oracle, when the checks pass and the oracle
  answers.
\<close>

definition attendance_similarity :: "env \<Rightarrow> request \<Rightarrow> db \<Rightarrow> jsnum option" where
  "attendance_similarity env req s =
     (case attendance_checks env req s of
        Inl r \<Rightarrow> None
      | Inr (c, faceData, tr) \<Rightarrow> Some (computeCosineSimilarity (u_faceEncodings (x_student c)) faceData))"

definition attendance_image_similarity :: "env \<Rightarrow> request \<Rightarrow> db \<Rightarrow> jsnum option" where
  "attendance_image_similarity env req s =
     (case attendance_image_checks env req s of
        Inl r \<Rightarrow> None
      | Inr (c, tr) \<Rightarrow>
          (case faceppCompare (e_compare_reply env) of Inl e \<Rightarrow> None | Inr similarity \<Rightarrow> Some similarity))"


section \<open>The ledger under concurrent requests\<close>

text \<open>The constraint of the unique index: no two documents with the same key.\<close>

definition unique_index :: "db \<Rightarrow> bool" where
  "unique_index s = distinct (map index_key (attendances s))"

datatype endpoint = Embedding | Image

fun catch_of :: "endpoint \<Rightarrow> js_error \<Rightarrow> response" where
  "catch_of Embedding = attendance_catch"
| "catch_of Image = attendance_image_catch"

text \<open>
  Requests that have passed their checks on some earlier state and now commit one after
  the other, in the order the store serialises their saves.
\<close>

fun run_commits :: "(endpoint \<times> env \<times> pending \<times> event list) list \<Rightarrow> db \<Rightarrow> response list \<times> db" where
  "run_commits [] s = ([], s)"
| "run_commits ((ep, env, p, tr) # rest) s =
     (case commit (catch_of ep) env p tr s of
        (res, s', tr') \<Rightarrow> (case run_commits rest s' of (rs, s'') \<Rightarrow> (res # rs, s'')))"

text \<open>
  What can happen to the store, one step at a time: a request runs through either
  handler; a request whose checks ran on an earlier state commits (so with any pending
  document); an administrator deletes a student; another endpoint writes the users,
  the courses or the notifications.  No other code writes the attendance collection.
\<close>

datatype step =
    Submit endpoint env request
  | Commit endpoint env pending "event list"
  | DeleteStudent string
  | OtherWrite "user list" "course list" "notification list"

fun handler_of :: "endpoint \<Rightarrow> env \<Rightarrow> request \<Rightarrow> db \<Rightarrow> response \<times> db \<times> event list" where
  "handler_of Embedding = attendance"
| "handler_of Image = attendance_image"

fun apply_step :: "step \<Rightarrow> db \<Rightarrow> db" where
  "apply_step (Submit ep env req) s = fst (snd (handler_of ep env req s))"
| "apply_step (Commit ep env p tr) s = fst (snd (commit (catch_of ep) env p tr s))"
| "apply_step (DeleteStudent sid) s = Attendance_deleteMany sid s"
| "apply_step (OtherWrite us cs ns) s = s\<lparr>users := us, courses := cs, notifications := ns\<rparr>"

fun run_steps :: "step list \<Rightarrow> db \<Rightarrow> db" where
  "run_steps [] s = s"
| "run_steps (st # steps) s = run_steps steps (apply_step st s)"


section \<open>Scenarios\<close>

text \<open>
  A student enrolled in ICT651 with a stored face reference of either kind, the course,
  and a store with no attendance yet.
\<close>

definition reference_S :: "jsnum list" where
  "reference_S = [Fin 1, Fin 0, Fin 0, Fin 0, Fin 0]"

definition student_S :: user where
  "student_S =
     \<lparr>u_role = Student, u_studentId = ''S1'', u_studentName = ''Student One'', u_isActive = True,
      u_enrolledCourses = [''ICT651''], u_faceEncodings = reference_S,
      u_faceToken = Some ''token''\<rparr>"

text \<open>
  Captured samples: one orthogonal to the reference, and one whose cosine similarity to
  the reference is exactly 0.85.
\<close>

definition sample_other :: "jsnum list" where
  "sample_other = [Fin 0, Fin 1, Fin 0, Fin 0, Fin 0]"

definition sample_085 :: "jsnum list" where
  "sample_085 = [Fin (17/20), Fin (1/2), Fin (3/20), Fin (1/20), Fin (1/20)]"

definition course_ICT651 :: course where
  "course_ICT651 = \<lparr>c_courseCode = ''ICT651'', c_isActive = True\<rparr>"

definition store0 :: db where
  "store0 = \<lparr>users = [student_S], courses = [course_ICT651], attendances = [], notifications = []\<rparr>"

text \<open>
  A server \<open>tz\<close> minutes east of UTC whose clock reads \<open>t\<close> throughout the request, a
  provider that reports the confidence \<open>conf\<close>, and a store that fails on the operations
  in \<open>faults\<close>.
\<close>

definition env_at :: "int \<Rightarrow> int \<Rightarrow> jsnum \<Rightarrow> db_op list \<Rightarrow> env" where
  "env_at tz t conf faults =
     \<lparr>e_tzOffset = tz, e_clock_today = t, e_clock_current = t, e_clock_start = t,
      e_clock_stamp = t, e_compare_reply = Data (Some conf), e_fault = (\<lambda>op. op \<in> set faults)\<rparr>"

text \<open>The instant \<open>h:m:sec\<close> UTC on the day number \<open>day\<close>, day 0 being 1970-01-01.\<close>

definition at_clock :: "int \<Rightarrow> int \<Rightarrow> int \<Rightarrow> int \<Rightarrow> int" where
  "at_clock day h m sec = day * 86400000 + h * 3600000 + m * 60000 + sec * 1000"

text \<open>A request of the student for the course \<open>courseCode\<close>, carrying both kinds of sample.\<close>

definition request_S :: "string \<Rightarrow> jsnum list \<Rightarrow> request" where
  "request_S courseCode faceData =
     \<lparr>r_studentId = ''S1'', r_courseCode = JString courseCode, r_faceData = Some faceData,
      r_imageBase64 = JString ''image'', r_notes = Undefined\<rparr>"

text \<open>The document that a request of the student commits on day \<open>day\<close>.\<close>

definition pending_S :: "int \<Rightarrow> pending" where
  "pending_S day =
     \<lparr>p_attendance =
        \<lparr>a_studentId = ''S1'', a_studentName = ''Student One'', a_courseCode = ''ICT651'',
         a_timestamp = at_clock day 9 10 0, a_date = day, a_status = Present,
         a_confidenceScore = Fin 1, a_isLate = False, a_lateMinutes = 0\<rparr>,
      p_isLate = False, p_lateMinutes = 0, p_courseCode = ''ICT651''\<rparr>"


section \<open>Properties\<close>


subsection \<open>Evaluation of the scenarios\<close>

lemma toUpperCase_ICT651: "toUpperCase ''ICT651'' = ''ICT651''"
  by code_simp

lemma toUpperCase_ICT999: "toUpperCase ''ICT999'' = ''ICT999''"
  by code_simp

lemmas scenario_defs = reference_S_def sample_other_def sample_085_def student_S_def course_ICT651_def store0_def env_at_def at_clock_def
  request_S_def pending_S_def

lemmas handler_defs = attendance_def attendance_decide_def attendance_checks_def
  attendance_verify_def classify_and_build_def new_Attendance_def commit_def
  attendance_image_def attendance_image_decide_def attendance_image_checks_def
  attendance_image_verify_def no_faceToken_def
  User_findOne_def Course_findOne_def Attendance_findOne_def Attendance_save_def
  attendance_valid_def index_key_def createNotification_def late_notification_def response_of_def
  SIMILARITY_THRESHOLD_def SIMILARITY_THRESHOLD_image_def attendance_catch_def
  attendance_image_catch_def computeCosineSimilarity_def classify_def setHours9_def localDate_def
  toISODate_def MS_PER_DAY_def MS_PER_MINUTE_def

subsection \<open>The unique index\<close>

lemma catch_not_success: "\<not> is_success (attendance_catch e)" "\<not> is_success (attendance_image_catch e)"
  by (simp_all add: attendance_catch_def attendance_image_catch_def)

lemma catch_of_not_success: "\<not> is_success (catch_of ep e)"
  by (cases ep) (simp_all add: catch_not_success)

lemma createNotification_attendances [simp]:
  "attendances (createNotification f n s) = attendances s"
  by (simp add: createNotification_def)

lemma Attendance_save_Inr:
  "Attendance_save f a s = Inr s' \<longleftrightarrow>
     attendance_valid a \<and> \<not> f \<and> index_key a \<notin> set (map index_key (attendances s)) \<and>
     s' = s\<lparr>attendances := attendances s @ [a]\<rparr>"
  by (auto simp add: Attendance_save_def)

lemma commit_cases:
  assumes "commit catch env p tr s = (res, s', tr')"
  shows "(\<exists>e. Attendance_save (e_fault env SaveAttendance) (p_attendance p) s = Inl e \<and> res = catch e \<and> s' = s)
       \<or> (is_success res \<and> attendances s' = attendances s @ [p_attendance p] \<and>
          users s' = users s \<and> courses s' = courses s \<and>
          attendance_valid (p_attendance p) \<and> \<not> e_fault env SaveAttendance \<and>
          index_key (p_attendance p) \<notin> set (map index_key (attendances s)))"
  using assms
  by (auto simp add: commit_def Attendance_save_Inr createNotification_def split: sum.splits if_splits)

lemma commit_unique:
  assumes "unique_index s" and "commit catch env p tr s = (res, s', tr')"
  shows "unique_index s'"
  using commit_cases [OF assms(2)] assms(1)
  by (auto simp add: unique_index_def)

lemma attendance_unique:
  assumes "unique_index s" and "attendance env req s = (res, s', tr)"
  shows "unique_index s'"
  using assms
  by (auto simp add: attendance_def split: decision.splits dest: commit_unique)

lemma attendance_image_unique:
  assumes "unique_index s" and "attendance_image env req s = (res, s', tr)"
  shows "unique_index s'"
  using assms
  by (auto simp add: attendance_image_def split: decision.splits dest: commit_unique)

lemma apply_step_unique: "unique_index s \<Longrightarrow> unique_index (apply_step st s)"
proof (cases st)
  case (Submit ep env req)
  obtain res s' tr where r: "handler_of ep env req s = (res, s', tr)"
    by (cases "handler_of ep env req s") auto
  assume "unique_index s"
  with r have "unique_index s'"
    by (cases ep) (auto intro: attendance_unique attendance_image_unique)
  with Submit r show ?thesis by simp
next
  case (Commit ep env p tr)
  obtain res s' tr' where r: "commit (catch_of ep) env p tr s = (res, s', tr')"
    by (cases "commit (catch_of ep) env p tr s") auto
  assume "unique_index s"
  from commit_unique [OF this r] Commit r show ?thesis by simp
next
  case (DeleteStudent sid)
  assume "unique_index s"
  with DeleteStudent show ?thesis
    by (simp add: unique_index_def Attendance_deleteMany_def distinct_map_filter)
next
  case (OtherWrite us cs ns)
  assume "unique_index s"
  with OtherWrite show ?thesis by (simp add: unique_index_def)
qed

lemma run_steps_unique: "unique_index s \<Longrightarrow> unique_index (run_steps steps s)"
  by (induction steps arbitrary: s) (simp_all add: apply_step_unique)

lemma distinct_count_le_1:
  "distinct (map f xs) \<Longrightarrow> length (filter (\<lambda>x. f x = k) xs) \<le> 1"
  by (induction xs) (auto simp add: filter_empty_conv image_iff)


lemma run_commits_present:
  assumes "\<forall>(ep, env, p, tr)\<in>set attempts. index_key (p_attendance p) = k"
      and "k \<in> index_key ` set (attendances s)"
  shows "filter is_success (fst (run_commits attempts s)) = []
         \<and> attendances (snd (run_commits attempts s)) = attendances s"
  using assms
proof (induction attempts arbitrary: s)
  case Nil
  then show ?case by simp
next
  case (Cons x attempts)
  obtain ep env p tr where x: "x = (ep, env, p, tr)" by (cases x) auto
  obtain res s' tr' where c: "commit (catch_of ep) env p tr s = (res, s', tr')"
    by (cases "commit (catch_of ep) env p tr s") auto
  have k: "index_key (p_attendance p) = k" using Cons.prems(1) x by simp
  from commit_cases [OF c] k Cons.prems(2)
  have r: "\<not> is_success res" and s': "s' = s"
    by (auto simp add: catch_of_not_success)
  have "\<forall>(ep, env, p, tr)\<in>set attempts. index_key (p_attendance p) = k"
    using Cons.prems(1) by simp
  from Cons.IH [OF this Cons.prems(2)] show ?case
    using x c r s' by (auto split: prod.splits)
qed

lemma run_commits_absent:
  assumes "attempts \<noteq> []"
      and "\<forall>(ep, env, p, tr)\<in>set attempts.
             index_key (p_attendance p) = k \<and> attendance_valid (p_attendance p) \<and>
             \<not> e_fault env SaveAttendance"
      and "k \<notin> index_key ` set (attendances s)"
  shows "length (filter is_success (fst (run_commits attempts s))) = 1"
proof (cases attempts)
  case Nil
  then show ?thesis using assms(1) by simp
next
  case (Cons x rest)
  obtain ep env p tr where x: "x = (ep, env, p, tr)" by (cases x) auto
  obtain res s' tr' where c: "commit (catch_of ep) env p tr s = (res, s', tr')"
    by (cases "commit (catch_of ep) env p tr s") auto
  have h: "index_key (p_attendance p) = k" "attendance_valid (p_attendance p)"
          "\<not> e_fault env SaveAttendance"
    using assms(2) Cons x by auto
  have "Attendance_save (e_fault env SaveAttendance) (p_attendance p) s
          = Inr (s\<lparr>attendances := attendances s @ [p_attendance p]\<rparr>)"
    using h assms(3) by (simp add: Attendance_save_def)
  with commit_cases [OF c]
  have r: "is_success res" and a: "attendances s' = attendances s @ [p_attendance p]"
    by auto
  have k': "k \<in> index_key ` set (attendances s')" using a h(1) by auto
  have "\<forall>(ep, env, p, tr)\<in>set rest. index_key (p_attendance p) = k"
    using assms(2) Cons by auto
  from run_commits_present [OF this k']
  have "filter is_success (fst (run_commits rest s')) = []" by simp
  then show ?thesis using Cons x c r by (auto split: prod.splits)
qed

text \<open>
  Claim C1.  In every state that the store reaches from an empty attendance collection
  there is at most one attendance document for a student, a course and a date,
  whichever handlers ran and however their commits were interleaved.  And when any
  number of requests that passed their checks commit documents with one key that is not
  yet in the ledger (valid documents, the store answering), exactly one of them is
  answered with success, in whatever order the store takes them.
\<close>

theorem attendance_ledger_unique:
  assumes "attendances s0 = []"
  shows "(\<forall>sid code day.
            length (filter (\<lambda>a. a_studentId a = sid \<and> a_courseCode a = code \<and> a_date a = day)
                      (attendances (run_steps steps s0))) \<le> 1)
       \<and> (\<forall>attempts k.
            attempts \<noteq> [] \<and>
            (\<forall>(ep, env, p, tr)\<in>set attempts.
               index_key (p_attendance p) = k \<and> attendance_valid (p_attendance p) \<and>
               \<not> e_fault env SaveAttendance) \<and>
            k \<notin> index_key ` set (attendances (run_steps steps s0))
            \<longrightarrow> length (filter is_success (fst (run_commits attempts (run_steps steps s0)))) = 1)"
proof -
  let ?s = "run_steps steps s0"
  have "unique_index s0" using assms by (simp add: unique_index_def)
  then have "distinct (map index_key (attendances ?s))"
    using run_steps_unique [of s0 steps] by (simp add: unique_index_def)
  then have "\<And>k. length (filter (\<lambda>a. index_key a = k) (attendances ?s)) \<le> 1"
    by (rule distinct_count_le_1)
  then have "\<And>sid code day. length (filter (\<lambda>a. index_key a = (sid, code, day)) (attendances ?s)) \<le> 1"
    by blast
  then have one: "\<forall>sid code day.
            length (filter (\<lambda>a. a_studentId a = sid \<and> a_courseCode a = code \<and> a_date a = day)
                      (attendances ?s)) \<le> 1"
    by (simp add: index_key_def)
  show ?thesis using one run_commits_absent by blast
qed

theorem attendance_ledger_unique_witness:
  "attendances store0 = []
   \<and> length (filter (\<lambda>a. a_studentId a = ''S1'' \<and> a_courseCode a = ''ICT651'' \<and> a_date a = 0)
         (attendances
            (run_steps
               [Submit Embedding (env_at 0 (at_clock 0 9 10 0) (Fin 90) []) (request_S ''ICT651'' reference_S),
                Submit Image (env_at 0 (at_clock 0 9 11 0) (Fin 90) []) (request_S ''ICT651'' reference_S),
                Commit Image (env_at 0 (at_clock 0 9 10 0) (Fin 90) []) (pending_S 0) []]
               store0))) = 1
   \<and> length (filter is_success
         (fst (run_commits
                 [(Embedding, env_at 0 (at_clock 1 9 10 0) (Fin 90) [], pending_S 1, []),
                  (Image, env_at 0 (at_clock 1 9 10 0) (Fin 90) [], pending_S 1, []),
                  (Embedding, env_at 0 (at_clock 1 9 10 0) (Fin 90) [], pending_S 1, [])]
                 (run_steps
                    [Submit Embedding (env_at 0 (at_clock 0 9 10 0) (Fin 90) []) (request_S ''ICT651'' reference_S),
                     Submit Image (env_at 0 (at_clock 0 9 11 0) (Fin 90) []) (request_S ''ICT651'' reference_S),
                     Commit Image (env_at 0 (at_clock 0 9 10 0) (Fin 90) []) (pending_S 0) []]
                    store0)))) = 1"
proof -
  let ?env' = "env_at 0 (at_clock 1 9 10 0) (Fin 90) []"
  let ?steps = "[Submit Embedding (env_at 0 (at_clock 0 9 10 0) (Fin 90) []) (request_S ''ICT651'' reference_S),
                 Submit Image (env_at 0 (at_clock 0 9 11 0) (Fin 90) []) (request_S ''ICT651'' reference_S),
                 Commit Image (env_at 0 (at_clock 0 9 10 0) (Fin 90) []) (pending_S 0) []]"
  let ?s1 = "run_steps ?steps store0"
  let ?attempts = "[(Embedding, ?env', pending_S 1, []), (Image, ?env', pending_S 1, []),
                    (Embedding, ?env', pending_S 1, [])]"
  have e: "attendances store0 = []"
    by (simp add: store0_def)
  have s1: "attendances ?s1 = [p_attendance (pending_S 0)]"
    by (simp add: handler_defs scenario_defs toUpperCase_ICT651)
  have hyp: "?attempts \<noteq> [] \<and>
             (\<forall>(ep, env, p, tr)\<in>set ?attempts.
                index_key (p_attendance p) = (''S1'', ''ICT651'', 1) \<and>
                attendance_valid (p_attendance p) \<and> \<not> e_fault env SaveAttendance) \<and>
             (''S1'', ''ICT651'', 1) \<notin> index_key ` set (attendances ?s1)"
    unfolding s1 by (simp add: scenario_defs index_key_def attendance_valid_def)
  from attendance_ledger_unique [OF e, of ?steps] hyp
  have one: "length (filter is_success (fst (run_commits ?attempts ?s1))) = 1"
    by blast
  from attendance_ledger_unique [OF e, of ?steps]
  have "length (filter (\<lambda>a. a_studentId a = ''S1'' \<and> a_courseCode a = ''ICT651'' \<and> a_date a = 0)
                  (attendances ?s1)) \<le> 1"
    by blast
  moreover have "length (filter (\<lambda>a. a_studentId a = ''S1'' \<and> a_courseCode a = ''ICT651'' \<and> a_date a = 0)
                  (attendances ?s1)) \<ge> 1"
    unfolding s1 by (simp add: scenario_defs)
  ultimately show ?thesis using e one by simp
qed

subsection \<open>The stages of a run\<close>

text \<open>What the checks have established when they pass, and what they answer when not.\<close>

lemma attendance_checks_Inl:
  assumes "attendance_checks env req s = Inl (res, tr)"
  shows "\<not> is_success res \<and> set tr \<subseteq> {Db FindUser, Db FindCourse, Db FindAttendance}
         \<and> res \<noteq> ErrorResponse 400 ''Face verification failed. Please try again.''"
  using assms
  by (auto simp add: attendance_checks_def attendance_catch_def Let_def
           split: if_splits option.splits jsval.splits)

lemma attendance_checks_Inr:
  assumes "attendance_checks env req s = Inr (c, faceData, tr)"
  shows "tr = [Db FindUser, Db FindCourse, Db FindAttendance]
       \<and> r_courseCode req = JString (x_courseCode c) \<and> x_courseCode c \<noteq> []
       \<and> x_today c = toISODate (e_clock_today env)
       \<and> User_findOne (r_studentId req) s = Some (x_student c)
       \<and> toUpperCase (x_courseCode c) \<in> set (u_enrolledCourses (x_student c))
       \<and> Course_findOne (toUpperCase (x_courseCode c)) s \<noteq> None
       \<and> Attendance_findOne (r_studentId req) (toUpperCase (x_courseCode c)) (x_today c) s = None
       \<and> u_faceEncodings (x_student c) \<noteq> []
       \<and> r_faceData req = Some faceData
       \<and> length faceData = length (u_faceEncodings (x_student c))"
  using assms
  by (auto simp add: attendance_checks_def Let_def
           split: if_splits option.splits jsval.splits)

lemma attendance_image_checks_Inl:
  assumes "attendance_image_checks env req s = Inl (res, tr)"
  shows "\<not> is_success res \<and> set tr \<subseteq> {Db FindUser, Db FindCourse, Db FindAttendance}
         \<and> res \<noteq> ErrorResponse 400 ''Face verification failed. Please try again.''"
  using assms
  by (auto simp add: attendance_image_checks_def attendance_image_catch_def Let_def
           split: if_splits option.splits jsval.splits)

lemma attendance_image_checks_Inr:
  assumes "attendance_image_checks env req s = Inr (c, tr)"
  shows "tr = [Db FindUser, Db FindCourse, Db FindAttendance]
       \<and> r_courseCode req = JString (x_courseCode c) \<and> x_courseCode c \<noteq> []
       \<and> truthy (r_imageBase64 req)
       \<and> x_today c = toISODate (e_clock_today env)
       \<and> User_findOne (r_studentId req) s = Some (x_student c)
       \<and> toUpperCase (x_courseCode c) \<in> set (u_enrolledCourses (x_student c))
       \<and> Course_findOne (toUpperCase (x_courseCode c)) s \<noteq> None
       \<and> Attendance_findOne (r_studentId req) (toUpperCase (x_courseCode c)) (x_today c) s = None
       \<and> \<not> no_faceToken (x_student c)"
  using assms
  by (auto simp add: attendance_image_checks_def Let_def
           split: if_splits option.splits jsval.splits)

lemma classify_and_build_cases:
  "classify_and_build catch env req c sim tr = d \<Longrightarrow>
     (notes_trim (r_notes req) = None \<and> d = Reject (catch TypeError) tr)
   \<or> (notes_trim (r_notes req) \<noteq> None \<and>
       (\<exists>p. d = Proceed p tr \<and>
            p_attendance p = new_Attendance env req c sim
               (classify (e_clock_current env) (setHours9 (e_tzOffset env) (e_clock_start env))) \<and>
            p_isLate p = a_isLate (p_attendance p) \<and>
            p_lateMinutes p = a_lateMinutes (p_attendance p) \<and>
            p_courseCode p = x_courseCode c))"
  by (auto simp add: classify_and_build_def new_Attendance_def Let_def split: option.splits)

lemma commit_error:
  assumes "commit catch env p tr s = (res, s', tr')"
      and "\<And>e. \<not> is_success (catch e)"
  shows "tr' = tr @ [Db SaveAttendance] @ (if is_success res \<and> p_isLate p then [Db SaveNotification] else [])
         \<and> (\<not> is_success res \<longrightarrow> s' = s)
         \<and> (is_success res \<longrightarrow> attendances s' = attendances s @ [p_attendance p]
               \<and> res = SuccessResponse (if p_isLate p then ''Attendance marked successfully (Late)''
                                         else ''Attendance marked successfully'')
                          (response_of (p_attendance p)))"
  using assms
  by (auto simp add: commit_def Attendance_save_Inr split: sum.splits if_splits)

text \<open>
  Every run of a handler ends in one of a few ways: in the checks, at the threshold, in
  the construction of the document, or in the commit.
\<close>

lemma attendance_run:
  assumes "attendance env req s = (res, s', tr)"
  obtains
    (checks) "attendance_checks env req s = Inl (res, tr)" "s' = s"
  | (failed) c fd t where
      "attendance_checks env req s = Inr (c, fd, t)"
      "js_lt (computeCosineSimilarity (u_faceEncodings (x_student c)) fd) SIMILARITY_THRESHOLD"
      "res = ErrorResponse 400 ''Face verification failed. Please try again.''"
      "s' = s" "tr = t @ [OracleCall]"
  | (bad_notes) c fd t where
      "attendance_checks env req s = Inr (c, fd, t)"
      "\<not> js_lt (computeCosineSimilarity (u_faceEncodings (x_student c)) fd) SIMILARITY_THRESHOLD"
      "notes_trim (r_notes req) = None"
      "res = attendance_catch TypeError" "s' = s" "tr = t @ [OracleCall]"
  | (commit) c fd t p where
      "attendance_checks env req s = Inr (c, fd, t)"
      "\<not> js_lt (computeCosineSimilarity (u_faceEncodings (x_student c)) fd) SIMILARITY_THRESHOLD"
      "notes_trim (r_notes req) \<noteq> None"
      "p_attendance p = new_Attendance env req c
          (computeCosineSimilarity (u_faceEncodings (x_student c)) fd)
          (classify (e_clock_current env) (setHours9 (e_tzOffset env) (e_clock_start env)))"
      "p_isLate p = a_isLate (p_attendance p)"
      "p_lateMinutes p = a_lateMinutes (p_attendance p)"
      "p_courseCode p = x_courseCode c"
      "commit attendance_catch env p (t @ [OracleCall]) s = (res, s', tr)"
proof (cases "attendance_checks env req s")
  case (Inl a)
  obtain r t where a: "a = (r, t)" by (cases a) auto
  from assms Inl a have "r = res" "t = tr" "s' = s"
    by (simp_all add: attendance_def attendance_decide_def)
  with Inl a show ?thesis by (intro checks) simp_all
next
  case (Inr b)
  obtain c fd t where b: "b = (c, fd, t)" by (cases b) auto
  let ?sim = "computeCosineSimilarity (u_faceEncodings (x_student c)) fd"
  show ?thesis
  proof (cases "js_lt ?sim SIMILARITY_THRESHOLD")
    case True
    with assms Inr b
    have "res = ErrorResponse 400 ''Face verification failed. Please try again.''"
      "s' = s" "tr = t @ [OracleCall]"
      by (simp_all add: attendance_def attendance_decide_def attendance_verify_def)
    with Inr b True show ?thesis by (intro failed [of c fd t]) simp_all
  next
    case False
    from classify_and_build_cases [where catch = attendance_catch and env = env and req = req
            and c = c and sim = ?sim and tr = "t @ [OracleCall]", OF refl]
    show ?thesis
    proof (elim disjE conjE exE)
      assume n: "notes_trim (r_notes req) = None"
        and d: "classify_and_build attendance_catch env req c ?sim (t @ [OracleCall])
               = Reject (attendance_catch TypeError) (t @ [OracleCall])"
      from assms Inr b False d
      have "res = attendance_catch TypeError" "s' = s" "tr = t @ [OracleCall]"
        by (simp_all add: attendance_def attendance_decide_def attendance_verify_def)
      with Inr b False n show ?thesis by (intro bad_notes [of c fd t]) simp_all
    next
      fix p
      assume n: "notes_trim (r_notes req) \<noteq> None"
        and d: "classify_and_build attendance_catch env req c ?sim (t @ [OracleCall])
               = Proceed p (t @ [OracleCall])"
        and p: "p_attendance p = new_Attendance env req c ?sim
               (classify (e_clock_current env) (setHours9 (e_tzOffset env) (e_clock_start env)))"
          "p_isLate p = a_isLate (p_attendance p)"
          "p_lateMinutes p = a_lateMinutes (p_attendance p)"
          "p_courseCode p = x_courseCode c"
      from assms Inr b False d
      have "commit attendance_catch env p (t @ [OracleCall]) s = (res, s', tr)"
        by (simp add: attendance_def attendance_decide_def attendance_verify_def)
      with Inr b False n p show ?thesis by (intro commit [of c fd t p]) simp_all
    qed
  qed
qed

lemma attendance_image_run:
  assumes "attendance_image env req s = (res, s', tr)"
  obtains
    (checks) "attendance_image_checks env req s = Inl (res, tr)" "s' = s"
  | (unavailable) c t e where
      "attendance_image_checks env req s = Inr (c, t)"
      "faceppCompare (e_compare_reply env) = Inl e"
      "res = ErrorResponse 400 ''Face verification failed. Please try again.''"
      "s' = s" "tr = t @ [OracleCall]"
  | (failed) c t sim where
      "attendance_image_checks env req s = Inr (c, t)"
      "faceppCompare (e_compare_reply env) = Inr sim"
      "js_lt sim SIMILARITY_THRESHOLD_image"
      "res = ErrorResponse 400 ''Face verification failed. Please try again.''"
      "s' = s" "tr = t @ [OracleCall]"
  | (bad_notes) c t sim where
      "attendance_image_checks env req s = Inr (c, t)"
      "faceppCompare (e_compare_reply env) = Inr sim"
      "\<not> js_lt sim SIMILARITY_THRESHOLD_image"
      "notes_trim (r_notes req) = None"
      "res = attendance_image_catch TypeError" "s' = s" "tr = t @ [OracleCall]"
  | (commit) c t sim p where
      "attendance_image_checks env req s = Inr (c, t)"
      "faceppCompare (e_compare_reply env) = Inr sim"
      "\<not> js_lt sim SIMILARITY_THRESHOLD_image"
      "notes_trim (r_notes req) \<noteq> None"
      "p_attendance p = new_Attendance env req c sim
          (classify (e_clock_current env) (setHours9 (e_tzOffset env) (e_clock_start env)))"
      "p_isLate p = a_isLate (p_attendance p)"
      "p_lateMinutes p = a_lateMinutes (p_attendance p)"
      "p_courseCode p = x_courseCode c"
      "commit attendance_image_catch env p (t @ [OracleCall]) s = (res, s', tr)"
proof (cases "attendance_image_checks env req s")
  case (Inl a)
  obtain r t where a: "a = (r, t)" by (cases a) auto
  from assms Inl a have "r = res" "t = tr" "s' = s"
    by (simp_all add: attendance_image_def attendance_image_decide_def)
  with Inl a show ?thesis by (intro checks) simp_all
next
  case (Inr b)
  obtain c t where b: "b = (c, t)" by (cases b) auto
  show ?thesis
  proof (cases "faceppCompare (e_compare_reply env)")
    case (Inl e)
    with assms Inr b
    have "res = ErrorResponse 400 ''Face verification failed. Please try again.''"
      "s' = s" "tr = t @ [OracleCall]"
      by (simp_all add: attendance_image_def attendance_image_decide_def attendance_image_verify_def)
    with Inr b Inl show ?thesis by (intro unavailable [of c t e]) simp_all
  next
    case sim: (Inr sim)
    show ?thesis
    proof (cases "js_lt sim SIMILARITY_THRESHOLD_image")
      case True
      with assms Inr b sim
      have "res = ErrorResponse 400 ''Face verification failed. Please try again.''"
        "s' = s" "tr = t @ [OracleCall]"
        by (simp_all add: attendance_image_def attendance_image_decide_def attendance_image_verify_def)
      with Inr b sim True show ?thesis by (intro failed [of c t sim]) simp_all
    next
      case False
      from classify_and_build_cases [where catch = attendance_image_catch and env = env and req = req
              and c = c and sim = sim and tr = "t @ [OracleCall]", OF refl]
      show ?thesis
      proof (elim disjE conjE exE)
        assume n: "notes_trim (r_notes req) = None"
          and d: "classify_and_build attendance_image_catch env req c sim (t @ [OracleCall])
                 = Reject (attendance_image_catch TypeError) (t @ [OracleCall])"
        from assms Inr b sim False d
        have "res = attendance_image_catch TypeError" "s' = s" "tr = t @ [OracleCall]"
          by (simp_all add: attendance_image_def attendance_image_decide_def attendance_image_verify_def)
        with Inr b sim False n show ?thesis by (intro bad_notes [of c t sim]) simp_all
      next
        fix p
        assume n: "notes_trim (r_notes req) \<noteq> None"
          and d: "classify_and_build attendance_image_catch env req c sim (t @ [OracleCall])
                 = Proceed p (t @ [OracleCall])"
          and p: "p_attendance p = new_Attendance env req c sim
                 (classify (e_clock_current env) (setHours9 (e_tzOffset env) (e_clock_start env)))"
            "p_isLate p = a_isLate (p_attendance p)"
            "p_lateMinutes p = a_lateMinutes (p_attendance p)"
            "p_courseCode p = x_courseCode c"
        from assms Inr b sim False d
        have "commit attendance_image_catch env p (t @ [OracleCall]) s = (res, s', tr)"
          by (simp add: attendance_image_def attendance_image_decide_def attendance_image_verify_def)
        with Inr b sim False n p show ?thesis by (intro commit [of c t sim p]) simp_all
      qed
    qed
  qed
qed

subsection \<open>Rejections\<close>

lemma attendance_not_success_same:
  assumes "attendance env req s = (res, s', tr)" and "\<not> is_success res"
  shows "s' = s"
  using assms(1)
proof (cases rule: attendance_run)
  case (commit c fd t p)
  from commit_error [OF commit(8) catch_not_success(1)] assms(2) show ?thesis by simp
qed simp_all

lemma attendance_image_not_success_same:
  assumes "attendance_image env req s = (res, s', tr)" and "\<not> is_success res"
  shows "s' = s"
  using assms(1)
proof (cases rule: attendance_image_run)
  case (commit c t sim p)
  from commit_error [OF commit(9) catch_not_success(2)] assms(2) show ?thesis by simp
qed simp_all

text \<open>
  Claim C10.  On both endpoints a request that is not answered with success leaves the
  store as it was: no attendance document and no notification is created, whatever the
  reason of the rejection (a missing field, an unknown student or course, no enrolment,
  a duplicate, no stored reference, invalid face data, a failed verification, or an
  exception answered by the \<open>catch\<close> block).
\<close>

theorem rejection_leaves_store_unchanged:
  "(\<not> is_success (fst (attendance env req s)) \<longrightarrow> fst (snd (attendance env req s)) = s)
 \<and> (\<not> is_success (fst (attendance_image env req s)) \<longrightarrow> fst (snd (attendance_image env req s)) = s)"
proof (intro conjI impI)
  assume "\<not> is_success (fst (attendance env req s))"
  then show "fst (snd (attendance env req s)) = s"
    using attendance_not_success_same [of env req s "fst (attendance env req s)"
        "fst (snd (attendance env req s))" "snd (snd (attendance env req s))"]
    by simp
next
  assume "\<not> is_success (fst (attendance_image env req s))"
  then show "fst (snd (attendance_image env req s)) = s"
    using attendance_image_not_success_same [of env req s "fst (attendance_image env req s)"
        "fst (snd (attendance_image env req s))" "snd (snd (attendance_image env req s))"]
    by simp
qed

theorem rejection_leaves_store_unchanged_witness:
  "\<not> is_success (fst (attendance (env_at 0 (at_clock 0 9 10 0) (Fin 50) []) (request_S ''ICT651'' sample_other) store0))
   \<and> fst (snd (attendance (env_at 0 (at_clock 0 9 10 0) (Fin 50) []) (request_S ''ICT651'' sample_other) store0)) = store0
   \<and> \<not> is_success (fst (attendance_image (env_at 0 (at_clock 0 9 10 0) (Fin 50) []) (request_S ''ICT651'' sample_other) store0))
   \<and> fst (snd (attendance_image (env_at 0 (at_clock 0 9 10 0) (Fin 50) []) (request_S ''ICT651'' sample_other) store0)) = store0"
proof -
  let ?E = "env_at 0 (at_clock 0 9 10 0) (Fin 50) []"
  let ?R = "request_S ''ICT651'' sample_other"
  have 1: "fst (attendance ?E ?R store0) = ErrorResponse 400 ''Face verification failed. Please try again.''"
    by (simp add: handler_defs scenario_defs toUpperCase_ICT651)
  have 2: "fst (attendance_image ?E ?R store0) = ErrorResponse 400 ''Face verification failed. Please try again.''"
    by (simp add: handler_defs scenario_defs toUpperCase_ICT651)
  from rejection_leaves_store_unchanged [of ?E ?R store0] 1 2 show ?thesis by simp
qed


subsection \<open>The order of the operations\<close>

lemma attendance_trace:
  assumes "attendance env req s = (res, s', tr)"
  shows "(OracleCall \<notin> set tr \<and> Db SaveAttendance \<notin> set tr \<and> Db SaveNotification \<notin> set tr \<and>
          \<not> is_success res \<and> res \<noteq> ErrorResponse 400 ''Face verification failed. Please try again.'')
       \<or> (tr = [Db FindUser, Db FindCourse, Db FindAttendance, OracleCall] \<and>
           (res = ErrorResponse 400 ''Face verification failed. Please try again.'' \<or>
            res = ErrorResponse 500 ''Failed to mark attendance. Please try again.''))
       \<or> (tr = [Db FindUser, Db FindCourse, Db FindAttendance, OracleCall, Db SaveAttendance] \<and>
           (res = ErrorResponse 400 ''Attendance already marked for today'' \<or>
            res = ErrorResponse 500 ''Failed to mark attendance. Please try again.''))
       \<or> (is_success res \<and>
           (\<exists>rest. tr = [Db FindUser, Db FindCourse, Db FindAttendance, OracleCall, Db SaveAttendance] @ rest))"
  using assms
proof (cases rule: attendance_run)
  case checks
  from attendance_checks_Inl [OF checks(1)] show ?thesis by auto
next
  case (failed c fd t)
  with attendance_checks_Inr [OF failed(1)] show ?thesis by simp
next
  case (bad_notes c fd t)
  with attendance_checks_Inr [OF bad_notes(1)] show ?thesis by (simp add: attendance_catch_def)
next
  case (commit c fd t p)
  from commit_cases [OF commit(8)] commit_error [OF commit(8) catch_not_success(1)]
    attendance_checks_Inr [OF commit(1)]
  show ?thesis
    by (auto simp add: attendance_catch_def catch_not_success)
qed

lemma attendance_image_trace:
  assumes "attendance_image env req s = (res, s', tr)"
  shows "(OracleCall \<notin> set tr \<and> Db SaveAttendance \<notin> set tr \<and> Db SaveNotification \<notin> set tr \<and>
          \<not> is_success res \<and> res \<noteq> ErrorResponse 400 ''Face verification failed. Please try again.'')
       \<or> (tr = [Db FindUser, Db FindCourse, Db FindAttendance, OracleCall] \<and>
           (res = ErrorResponse 400 ''Face verification failed. Please try again.'' \<or>
            res = ErrorResponse 500 ''Failed to mark attendance. Please try again.''))
       \<or> (tr = [Db FindUser, Db FindCourse, Db FindAttendance, OracleCall, Db SaveAttendance] \<and>
            res = ErrorResponse 500 ''Failed to mark attendance. Please try again.'')
       \<or> (is_success res \<and>
           (\<exists>rest. tr = [Db FindUser, Db FindCourse, Db FindAttendance, OracleCall, Db SaveAttendance] @ rest))"
  using assms
proof (cases rule: attendance_image_run)
  case checks
  from attendance_image_checks_Inl [OF checks(1)] show ?thesis by auto
next
  case (unavailable c t e)
  with attendance_image_checks_Inr [OF unavailable(1)] show ?thesis by simp
next
  case (failed c t sim)
  with attendance_image_checks_Inr [OF failed(1)] show ?thesis by simp
next
  case (bad_notes c t sim)
  with attendance_image_checks_Inr [OF bad_notes(1)] show ?thesis by (simp add: attendance_image_catch_def)
next
  case (commit c t sim p)
  from commit_cases [OF commit(9)] commit_error [OF commit(9) catch_not_success(2)]
    attendance_image_checks_Inr [OF commit(1)]
  show ?thesis
    by (auto simp add: attendance_image_catch_def catch_not_success)
qed

text \<open>
  Claim C7.  On both endpoints a request that is rejected as not enrolled, course not
  found, already marked today (by the duplicate check) or without a stored face
  reference has no oracle call in its trace.  And in every run that reaches the save,
  the trace begins with the three lookups, then the oracle call, then the save: the
  oracle call is the last operation before the commit.
\<close>

theorem oracle_call_precedes_commit:
  "(fst (attendance env req s) \<in>
      {ErrorResponse 400 ''You are not enrolled in this course'',
       ErrorResponse 404 ''Course not found'',
       ErrorResponse 400 ''Attendance already marked for today in this course'',
       ErrorResponse 400 ''No registered face encodings found. Please register your face first.''}
    \<longrightarrow> OracleCall \<notin> set (snd (snd (attendance env req s))))
 \<and> (fst (attendance_image env req s) \<in>
      {ErrorResponse 400 ''You are not enrolled in this course'',
       ErrorResponse 404 ''Course not found'',
       ErrorResponse 400 ''Attendance already marked for today in this course'',
       ErrorResponse 400 ''No registered face found. Please register your face first.''}
    \<longrightarrow> OracleCall \<notin> set (snd (snd (attendance_image env req s))))
 \<and> (Db SaveAttendance \<in> set (snd (snd (attendance env' req' s'))) \<longrightarrow>
      (\<exists>rest. snd (snd (attendance env' req' s')) =
         [Db FindUser, Db FindCourse, Db FindAttendance, OracleCall, Db SaveAttendance] @ rest))
 \<and> (Db SaveAttendance \<in> set (snd (snd (attendance_image env' req' s'))) \<longrightarrow>
      (\<exists>rest. snd (snd (attendance_image env' req' s')) =
         [Db FindUser, Db FindCourse, Db FindAttendance, OracleCall, Db SaveAttendance] @ rest))"
proof -
  obtain res z tr where a: "attendance env req s = (res, z, tr)"
    by (cases "attendance env req s") auto
  obtain res2 z2 tr2 where b: "attendance_image env req s = (res2, z2, tr2)"
    by (cases "attendance_image env req s") auto
  obtain res3 z3 tr3 where c: "attendance env' req' s' = (res3, z3, tr3)"
    by (cases "attendance env' req' s'") auto
  obtain res4 z4 tr4 where d: "attendance_image env' req' s' = (res4, z4, tr4)"
    by (cases "attendance_image env' req' s'") auto
  from attendance_trace [OF a] attendance_image_trace [OF b]
  have 1: "(fst (attendance env req s) \<in>
      {ErrorResponse 400 ''You are not enrolled in this course'',
       ErrorResponse 404 ''Course not found'',
       ErrorResponse 400 ''Attendance already marked for today in this course'',
       ErrorResponse 400 ''No registered face encodings found. Please register your face first.''}
    \<longrightarrow> OracleCall \<notin> set (snd (snd (attendance env req s))))
   \<and> (fst (attendance_image env req s) \<in>
      {ErrorResponse 400 ''You are not enrolled in this course'',
       ErrorResponse 404 ''Course not found'',
       ErrorResponse 400 ''Attendance already marked for today in this course'',
       ErrorResponse 400 ''No registered face found. Please register your face first.''}
    \<longrightarrow> OracleCall \<notin> set (snd (snd (attendance_image env req s))))"
    unfolding a b by auto
  from attendance_trace [OF c] attendance_image_trace [OF d]
  have 2: "(Db SaveAttendance \<in> set (snd (snd (attendance env' req' s'))) \<longrightarrow>
      (\<exists>rest. snd (snd (attendance env' req' s')) =
         [Db FindUser, Db FindCourse, Db FindAttendance, OracleCall, Db SaveAttendance] @ rest))
   \<and> (Db SaveAttendance \<in> set (snd (snd (attendance_image env' req' s'))) \<longrightarrow>
      (\<exists>rest. snd (snd (attendance_image env' req' s')) =
         [Db FindUser, Db FindCourse, Db FindAttendance, OracleCall, Db SaveAttendance] @ rest))"
    unfolding c d by auto
  from 1 2 show ?thesis by blast
qed

theorem oracle_call_precedes_commit_witness:
  "fst (attendance (env_at 0 (at_clock 0 9 10 0) (Fin 90) []) (request_S ''ICT999'' reference_S) store0)
     = ErrorResponse 400 ''You are not enrolled in this course''
   \<and> OracleCall \<notin> set (snd (snd (attendance (env_at 0 (at_clock 0 9 10 0) (Fin 90) []) (request_S ''ICT999'' reference_S) store0)))
   \<and> fst (attendance_image (env_at 0 (at_clock 0 9 10 0) (Fin 90) []) (request_S ''ICT999'' reference_S) store0)
     = ErrorResponse 400 ''You are not enrolled in this course''
   \<and> OracleCall \<notin> set (snd (snd (attendance_image (env_at 0 (at_clock 0 9 10 0) (Fin 90) []) (request_S ''ICT999'' reference_S) store0)))
   \<and> Db SaveAttendance \<in> set (snd (snd (attendance (env_at 0 (at_clock 0 9 10 0) (Fin 90) []) (request_S ''ICT651'' reference_S) store0)))
   \<and> (\<exists>rest. snd (snd (attendance (env_at 0 (at_clock 0 9 10 0) (Fin 90) []) (request_S ''ICT651'' reference_S) store0)) =
         [Db FindUser, Db FindCourse, Db FindAttendance, OracleCall, Db SaveAttendance] @ rest)
   \<and> Db SaveAttendance \<in> set (snd (snd (attendance_image (env_at 0 (at_clock 0 9 10 0) (Fin 90) []) (request_S ''ICT651'' reference_S) store0)))
   \<and> (\<exists>rest. snd (snd (attendance_image (env_at 0 (at_clock 0 9 10 0) (Fin 90) []) (request_S ''ICT651'' reference_S) store0)) =
         [Db FindUser, Db FindCourse, Db FindAttendance, OracleCall, Db SaveAttendance] @ rest)"
proof -
  let ?E = "env_at 0 (at_clock 0 9 10 0) (Fin 90) []"
  let ?R = "request_S ''ICT999'' reference_S"
  let ?R' = "request_S ''ICT651'' reference_S"
  have 1: "fst (attendance ?E ?R store0) = ErrorResponse 400 ''You are not enrolled in this course''"
    by (simp add: handler_defs scenario_defs toUpperCase_ICT999)
  have 2: "fst (attendance_image ?E ?R store0) = ErrorResponse 400 ''You are not enrolled in this course''"
    by (simp add: handler_defs scenario_defs toUpperCase_ICT999)
  have 3: "Db SaveAttendance \<in> set (snd (snd (attendance ?E ?R' store0)))"
    by (simp add: handler_defs scenario_defs toUpperCase_ICT651)
  have 4: "Db SaveAttendance \<in> set (snd (snd (attendance_image ?E ?R' store0)))"
    by (simp add: handler_defs scenario_defs toUpperCase_ICT651)
  from oracle_call_precedes_commit [of ?E ?R store0 ?E ?R' store0] 1 2 3 4 show ?thesis by simp
qed


subsection \<open>The late notification\<close>

lemma notification_fault_checks [simp]:
  "attendance_checks (env\<lparr>e_fault := (e_fault env)(SaveNotification := b)\<rparr>) req s
     = attendance_checks env req s"
  "attendance_image_checks (env\<lparr>e_fault := (e_fault env)(SaveNotification := b)\<rparr>) req s
     = attendance_image_checks env req s"
  by (simp_all add: attendance_checks_def attendance_image_checks_def
        cong: option.case_cong jsval.case_cong if_cong)

lemma notification_fault_build [simp]:
  "classify_and_build catch (env\<lparr>e_fault := (e_fault env)(SaveNotification := b)\<rparr>) req c sim tr
     = classify_and_build catch env req c sim tr"
  by (simp add: classify_and_build_def new_Attendance_def cong: option.case_cong)

lemma notification_fault_verify [simp]:
  "attendance_verify (env\<lparr>e_fault := (e_fault env)(SaveNotification := b)\<rparr>) req c fd tr
     = attendance_verify env req c fd tr"
  "attendance_image_verify (env\<lparr>e_fault := (e_fault env)(SaveNotification := b)\<rparr>) req c tr
     = attendance_image_verify env req c tr"
  by (simp_all add: attendance_verify_def attendance_image_verify_def Let_def split: sum.splits)

lemma notification_fault_decide [simp]:
  "attendance_decide (env\<lparr>e_fault := (e_fault env)(SaveNotification := b)\<rparr>) req s
     = attendance_decide env req s"
  "attendance_image_decide (env\<lparr>e_fault := (e_fault env)(SaveNotification := b)\<rparr>) req s
     = attendance_image_decide env req s"
  by (simp_all add: attendance_decide_def attendance_image_decide_def split: sum.splits prod.splits)

lemma notification_fault_commit:
  "fst (commit catch (env\<lparr>e_fault := (e_fault env)(SaveNotification := b)\<rparr>) p tr s)
     = fst (commit catch env p tr s)
   \<and> attendances (fst (snd (commit catch (env\<lparr>e_fault := (e_fault env)(SaveNotification := b)\<rparr>) p tr s)))
     = attendances (fst (snd (commit catch env p tr s)))
   \<and> snd (snd (commit catch (env\<lparr>e_fault := (e_fault env)(SaveNotification := b)\<rparr>) p tr s))
     = snd (snd (commit catch env p tr s))"
  by (simp add: commit_def split: sum.splits)

lemma notification_fault_attendance:
  "fst (attendance (env\<lparr>e_fault := (e_fault env)(SaveNotification := b)\<rparr>) req s)
     = fst (attendance env req s)
   \<and> attendances (fst (snd (attendance (env\<lparr>e_fault := (e_fault env)(SaveNotification := b)\<rparr>) req s)))
     = attendances (fst (snd (attendance env req s)))"
  using notification_fault_commit [of attendance_catch env b]
  by (simp add: attendance_def split: decision.splits)

lemma notification_fault_attendance_image:
  "fst (attendance_image (env\<lparr>e_fault := (e_fault env)(SaveNotification := b)\<rparr>) req s)
     = fst (attendance_image env req s)
   \<and> attendances (fst (snd (attendance_image (env\<lparr>e_fault := (e_fault env)(SaveNotification := b)\<rparr>) req s)))
     = attendances (fst (snd (attendance_image env req s)))"
  using notification_fault_commit [of attendance_image_catch env b]
  by (simp add: attendance_image_def split: decision.splits)

lemma attendance_notifies:
  assumes "attendance env req s = (res, s', tr)"
  shows "(Db SaveNotification \<in> set tr \<longleftrightarrow>
            is_success res \<and> (\<exists>a. attendances s' = attendances s @ [a] \<and> a_isLate a))
       \<and> (Db SaveNotification \<in> set tr \<longrightarrow>
            (\<exists>pre. tr = pre @ [Db SaveAttendance, Db SaveNotification]))"
  using assms
proof (cases rule: attendance_run)
  case checks
  from attendance_checks_Inl [OF checks(1)] show ?thesis by auto
next
  case (failed c fd t)
  with attendance_checks_Inr [OF failed(1)] show ?thesis by simp
next
  case (bad_notes c fd t)
  with attendance_checks_Inr [OF bad_notes(1)] show ?thesis by (simp add: attendance_catch_def)
next
  case (commit c fd t p)
  from commit_error [OF commit(8) catch_not_success(1)] attendance_checks_Inr [OF commit(1)] commit(5)
  show ?thesis by auto
qed

lemma attendance_image_notifies:
  assumes "attendance_image env req s = (res, s', tr)"
  shows "(Db SaveNotification \<in> set tr \<longleftrightarrow>
            is_success res \<and> (\<exists>a. attendances s' = attendances s @ [a] \<and> a_isLate a))
       \<and> (Db SaveNotification \<in> set tr \<longrightarrow>
            (\<exists>pre. tr = pre @ [Db SaveAttendance, Db SaveNotification]))"
  using assms
proof (cases rule: attendance_image_run)
  case checks
  from attendance_image_checks_Inl [OF checks(1)] show ?thesis by auto
next
  case (unavailable c t e)
  with attendance_image_checks_Inr [OF unavailable(1)] show ?thesis by simp
next
  case (failed c t sim)
  with attendance_image_checks_Inr [OF failed(1)] show ?thesis by simp
next
  case (bad_notes c t sim)
  with attendance_image_checks_Inr [OF bad_notes(1)] show ?thesis by (simp add: attendance_image_catch_def)
next
  case (commit c t sim p)
  from commit_error [OF commit(9) catch_not_success(2)] attendance_image_checks_Inr [OF commit(1)] commit(6)
  show ?thesis by auto
qed

lemma commit_notifications:
  assumes "commit catch env p tr s = (res, s', tr')"
      and "\<And>e. \<not> is_success (catch e)"
  shows "notifications s' =
           (if is_success res \<and> p_isLate p \<and> \<not> e_fault env SaveNotification
            then notifications s @ [late_notification p] else notifications s)"
  using assms
  by (auto simp add: commit_def Attendance_save_Inr createNotification_def late_notification_def
        attendance_valid_def split: sum.splits if_splits)

lemma attendance_notifications:
  assumes "attendance env req s = (res, s', tr)"
  shows "(\<not> is_success res \<longrightarrow> notifications s' = notifications s)
       \<and> (is_success res \<longrightarrow>
            (\<exists>a code. attendances s' = attendances s @ [a] \<and> r_courseCode req = JString code \<and>
               notifications s' =
                 (if a_isLate a \<and> \<not> e_fault env SaveNotification
                  then notifications s @
                         [\<lparr>n_userId = r_studentId req, n_title = ''Late Attendance Recorded'',
                           n_message = LateMessage code (a_lateMinutes a), n_type = ''warning'',
                           n_courseCode = toUpperCase code\<rparr>]
                  else notifications s)))"
  using assms
proof (cases rule: attendance_run)
  case checks
  from attendance_checks_Inl [OF checks(1)] checks(2) show ?thesis by simp
next
  case (failed c fd t)
  then show ?thesis by simp
next
  case (bad_notes c fd t)
  then show ?thesis by (simp add: catch_not_success)
next
  case (commit c fd t p)
  note ck = attendance_checks_Inr [OF commit(1)]
  note ce = commit_error [OF commit(8) catch_not_success(1)]
  note cn = commit_notifications [OF commit(8) catch_not_success(1)]
  show ?thesis
  proof (cases "is_success res")
    case False
    with ce show ?thesis by simp
  next
    case True
    with ce have a: "attendances s' = attendances s @ [p_attendance p]" by simp
    have ln: "late_notification p =
        \<lparr>n_userId = r_studentId req, n_title = ''Late Attendance Recorded'',
         n_message = LateMessage (x_courseCode c) (a_lateMinutes (p_attendance p)), n_type = ''warning'',
         n_courseCode = toUpperCase (x_courseCode c)\<rparr>"
      using commit(4,6,7) by (simp add: late_notification_def new_Attendance_def)
    from True cn commit(5) ln
    have "notifications s' =
                 (if a_isLate (p_attendance p) \<and> \<not> e_fault env SaveNotification
                  then notifications s @
                         [\<lparr>n_userId = r_studentId req, n_title = ''Late Attendance Recorded'',
                           n_message = LateMessage (x_courseCode c) (a_lateMinutes (p_attendance p)),
                           n_type = ''warning'',
                           n_courseCode = toUpperCase (x_courseCode c)\<rparr>]
                  else notifications s)"
      by simp
    with True a ck show ?thesis by blast
  qed
qed

lemma attendance_image_notifications:
  assumes "attendance_image env req s = (res, s', tr)"
  shows "(\<not> is_success res \<longrightarrow> notifications s' = notifications s)
       \<and> (is_success res \<longrightarrow>
            (\<exists>a code. attendances s' = attendances s @ [a] \<and> r_courseCode req = JString code \<and>
               notifications s' =
                 (if a_isLate a \<and> \<not> e_fault env SaveNotification
                  then notifications s @
                         [\<lparr>n_userId = r_studentId req, n_title = ''Late Attendance Recorded'',
                           n_message = LateMessage code (a_lateMinutes a), n_type = ''warning'',
                           n_courseCode = toUpperCase code\<rparr>]
                  else notifications s)))"
  using assms
proof (cases rule: attendance_image_run)
  case checks
  from attendance_image_checks_Inl [OF checks(1)] checks(2) show ?thesis by simp
next
  case (unavailable c t e)
  then show ?thesis by simp
next
  case (failed c t sim)
  then show ?thesis by simp
next
  case (bad_notes c t sim)
  then show ?thesis by (simp add: catch_not_success)
next
  case (commit c t sim p)
  note ck = attendance_image_checks_Inr [OF commit(1)]
  note ce = commit_error [OF commit(9) catch_not_success(2)]
  note cn = commit_notifications [OF commit(9) catch_not_success(2)]
  show ?thesis
  proof (cases "is_success res")
    case False
    with ce show ?thesis by simp
  next
    case True
    with ce have a: "attendances s' = attendances s @ [p_attendance p]" by simp
    have ln: "late_notification p =
        \<lparr>n_userId = r_studentId req, n_title = ''Late Attendance Recorded'',
         n_message = LateMessage (x_courseCode c) (a_lateMinutes (p_attendance p)), n_type = ''warning'',
         n_courseCode = toUpperCase (x_courseCode c)\<rparr>"
      using commit(5,7,8) by (simp add: late_notification_def new_Attendance_def)
    from True cn commit(6) ln
    have "notifications s' =
                 (if a_isLate (p_attendance p) \<and> \<not> e_fault env SaveNotification
                  then notifications s @
                         [\<lparr>n_userId = r_studentId req, n_title = ''Late Attendance Recorded'',
                           n_message = LateMessage (x_courseCode c) (a_lateMinutes (p_attendance p)),
                           n_type = ''warning'',
                           n_courseCode = toUpperCase (x_courseCode c)\<rparr>]
                  else notifications s)"
      by simp
    with True a ck show ?thesis by blast
  qed
qed

text \<open>
  Claim C9.  On both endpoints the notification is attempted exactly when the request
  succeeded and the document it committed has \<open>isLate\<close> set; the attempt comes directly
  after the save of the document; and whether the creation of the notification fails or
  not, the response and the attendance collection are the same.  A request that
  succeeds with a late document appends to the notifications the warning
  \<open>Late Attendance Recorded\<close> for the student, with the course and the late minutes of
  the document, unless the creation fails; every other request leaves the notifications
  as they were.
\<close>

theorem late_notification_best_effort:
  "(Db SaveNotification \<in> set (snd (snd (attendance env req s))) \<longleftrightarrow>
      is_success (fst (attendance env req s)) \<and>
      (\<exists>a. attendances (fst (snd (attendance env req s))) = attendances s @ [a] \<and> a_isLate a))
 \<and> (Db SaveNotification \<in> set (snd (snd (attendance env req s))) \<longrightarrow>
      (\<exists>pre. snd (snd (attendance env req s)) = pre @ [Db SaveAttendance, Db SaveNotification]))
 \<and> (Db SaveNotification \<in> set (snd (snd (attendance_image env req s))) \<longleftrightarrow>
      is_success (fst (attendance_image env req s)) \<and>
      (\<exists>a. attendances (fst (snd (attendance_image env req s))) = attendances s @ [a] \<and> a_isLate a))
 \<and> (Db SaveNotification \<in> set (snd (snd (attendance_image env req s))) \<longrightarrow>
      (\<exists>pre. snd (snd (attendance_image env req s)) = pre @ [Db SaveAttendance, Db SaveNotification]))
 \<and> (\<forall>b. fst (attendance (env\<lparr>e_fault := (e_fault env)(SaveNotification := b)\<rparr>) req s)
            = fst (attendance env req s)
        \<and> attendances (fst (snd (attendance (env\<lparr>e_fault := (e_fault env)(SaveNotification := b)\<rparr>) req s)))
            = attendances (fst (snd (attendance env req s)))
        \<and> fst (attendance_image (env\<lparr>e_fault := (e_fault env)(SaveNotification := b)\<rparr>) req s)
            = fst (attendance_image env req s)
        \<and> attendances (fst (snd (attendance_image (env\<lparr>e_fault := (e_fault env)(SaveNotification := b)\<rparr>) req s)))
            = attendances (fst (snd (attendance_image env req s))))
 \<and> (\<not> is_success (fst (attendance env req s)) \<longrightarrow>
      notifications (fst (snd (attendance env req s))) = notifications s)
 \<and> (is_success (fst (attendance env req s)) \<longrightarrow>
      (\<exists>a code. attendances (fst (snd (attendance env req s))) = attendances s @ [a] \<and>
         r_courseCode req = JString code \<and>
         notifications (fst (snd (attendance env req s))) =
           (if a_isLate a \<and> \<not> e_fault env SaveNotification
            then notifications s @
                   [\<lparr>n_userId = r_studentId req, n_title = ''Late Attendance Recorded'',
                     n_message = LateMessage code (a_lateMinutes a), n_type = ''warning'',
                     n_courseCode = toUpperCase code\<rparr>]
            else notifications s)))
 \<and> (\<not> is_success (fst (attendance_image env req s)) \<longrightarrow>
      notifications (fst (snd (attendance_image env req s))) = notifications s)
 \<and> (is_success (fst (attendance_image env req s)) \<longrightarrow>
      (\<exists>a code. attendances (fst (snd (attendance_image env req s))) = attendances s @ [a] \<and>
         r_courseCode req = JString code \<and>
         notifications (fst (snd (attendance_image env req s))) =
           (if a_isLate a \<and> \<not> e_fault env SaveNotification
            then notifications s @
                   [\<lparr>n_userId = r_studentId req, n_title = ''Late Attendance Recorded'',
                     n_message = LateMessage code (a_lateMinutes a), n_type = ''warning'',
                     n_courseCode = toUpperCase code\<rparr>]
            else notifications s)))"
proof -
  obtain res s' tr where a: "attendance env req s = (res, s', tr)"
    by (cases "attendance env req s") auto
  obtain res2 s2 tr2 where b: "attendance_image env req s = (res2, s2, tr2)"
    by (cases "attendance_image env req s") auto
  have 1: "(Db SaveNotification \<in> set (snd (snd (attendance env req s))) \<longleftrightarrow>
      is_success (fst (attendance env req s)) \<and>
      (\<exists>a. attendances (fst (snd (attendance env req s))) = attendances s @ [a] \<and> a_isLate a))
   \<and> (Db SaveNotification \<in> set (snd (snd (attendance env req s))) \<longrightarrow>
      (\<exists>pre. snd (snd (attendance env req s)) = pre @ [Db SaveAttendance, Db SaveNotification]))"
    using attendance_notifies [OF a] unfolding a by simp
  have 2: "(Db SaveNotification \<in> set (snd (snd (attendance_image env req s))) \<longleftrightarrow>
      is_success (fst (attendance_image env req s)) \<and>
      (\<exists>a. attendances (fst (snd (attendance_image env req s))) = attendances s @ [a] \<and> a_isLate a))
   \<and> (Db SaveNotification \<in> set (snd (snd (attendance_image env req s))) \<longrightarrow>
      (\<exists>pre. snd (snd (attendance_image env req s)) = pre @ [Db SaveAttendance, Db SaveNotification]))"
    using attendance_image_notifies [OF b] unfolding b by simp
  have 3: "\<forall>b. fst (attendance (env\<lparr>e_fault := (e_fault env)(SaveNotification := b)\<rparr>) req s)
            = fst (attendance env req s)
        \<and> attendances (fst (snd (attendance (env\<lparr>e_fault := (e_fault env)(SaveNotification := b)\<rparr>) req s)))
            = attendances (fst (snd (attendance env req s)))
        \<and> fst (attendance_image (env\<lparr>e_fault := (e_fault env)(SaveNotification := b)\<rparr>) req s)
            = fst (attendance_image env req s)
        \<and> attendances (fst (snd (attendance_image (env\<lparr>e_fault := (e_fault env)(SaveNotification := b)\<rparr>) req s)))
            = attendances (fst (snd (attendance_image env req s)))"
    using notification_fault_attendance [of env _ req s]
      notification_fault_attendance_image [of env _ req s]
    by blast
  have 4: "(\<not> is_success (fst (attendance env req s)) \<longrightarrow>
      notifications (fst (snd (attendance env req s))) = notifications s)
 \<and> (is_success (fst (attendance env req s)) \<longrightarrow>
      (\<exists>a code. attendances (fst (snd (attendance env req s))) = attendances s @ [a] \<and>
         r_courseCode req = JString code \<and>
         notifications (fst (snd (attendance env req s))) =
           (if a_isLate a \<and> \<not> e_fault env SaveNotification
            then notifications s @
                   [\<lparr>n_userId = r_studentId req, n_title = ''Late Attendance Recorded'',
                     n_message = LateMessage code (a_lateMinutes a), n_type = ''warning'',
                     n_courseCode = toUpperCase code\<rparr>]
            else notifications s)))"
    using attendance_notifications [OF a] unfolding a by simp
  have 5: "(\<not> is_success (fst (attendance_image env req s)) \<longrightarrow>
      notifications (fst (snd (attendance_image env req s))) = notifications s)
 \<and> (is_success (fst (attendance_image env req s)) \<longrightarrow>
      (\<exists>a code. attendances (fst (snd (attendance_image env req s))) = attendances s @ [a] \<and>
         r_courseCode req = JString code \<and>
         notifications (fst (snd (attendance_image env req s))) =
           (if a_isLate a \<and> \<not> e_fault env SaveNotification
            then notifications s @
                   [\<lparr>n_userId = r_studentId req, n_title = ''Late Attendance Recorded'',
                     n_message = LateMessage code (a_lateMinutes a), n_type = ''warning'',
                     n_courseCode = toUpperCase code\<rparr>]
            else notifications s)))"
    using attendance_image_notifications [OF b] unfolding b by simp
  from 1 2 3 4 5 show ?thesis by (intro conjI) (erule conjunct1 conjunct2 | assumption)+
qed

theorem late_notification_best_effort_witness:
  "Db SaveNotification \<in> set (snd (snd (attendance (env_at 0 (at_clock 0 9 20 0) (Fin 90) []) (request_S ''ICT651'' reference_S) store0)))
   \<and> (\<exists>pre. snd (snd (attendance (env_at 0 (at_clock 0 9 20 0) (Fin 90) []) (request_S ''ICT651'' reference_S) store0))
          = pre @ [Db SaveAttendance, Db SaveNotification])
   \<and> Db SaveNotification \<in> set (snd (snd (attendance_image (env_at 0 (at_clock 0 9 20 0) (Fin 90) []) (request_S ''ICT651'' reference_S) store0)))
   \<and> (\<exists>pre. snd (snd (attendance_image (env_at 0 (at_clock 0 9 20 0) (Fin 90) []) (request_S ''ICT651'' reference_S) store0))
          = pre @ [Db SaveAttendance, Db SaveNotification])
   \<and> fst (attendance ((env_at 0 (at_clock 0 9 20 0) (Fin 90) [])
             \<lparr>e_fault := (e_fault (env_at 0 (at_clock 0 9 20 0) (Fin 90) []))(SaveNotification := True)\<rparr>)
             (request_S ''ICT651'' reference_S) store0)
       = fst (attendance (env_at 0 (at_clock 0 9 20 0) (Fin 90) []) (request_S ''ICT651'' reference_S) store0)
   \<and> notifications (fst (snd (attendance ((env_at 0 (at_clock 0 9 20 0) (Fin 90) [])
             \<lparr>e_fault := (e_fault (env_at 0 (at_clock 0 9 20 0) (Fin 90) []))(SaveNotification := True)\<rparr>)
             (request_S ''ICT651'' reference_S) store0))) = []
   \<and> is_success (fst (attendance (env_at 0 (at_clock 0 9 20 0) (Fin 90) []) (request_S ''ICT651'' reference_S) store0))
   \<and> is_success (fst (attendance_image (env_at 0 (at_clock 0 9 20 0) (Fin 90) []) (request_S ''ICT651'' reference_S) store0))
   \<and> notifications (fst (snd (attendance (env_at 0 (at_clock 0 9 20 0) (Fin 90) []) (request_S ''ICT651'' reference_S) store0)))
       = [\<lparr>n_userId = ''S1'', n_title = ''Late Attendance Recorded'',
           n_message = LateMessage ''ICT651'' 20, n_type = ''warning'', n_courseCode = ''ICT651''\<rparr>]
   \<and> notifications (fst (snd (attendance_image (env_at 0 (at_clock 0 9 20 0) (Fin 90) []) (request_S ''ICT651'' reference_S) store0)))
       = [\<lparr>n_userId = ''S1'', n_title = ''Late Attendance Recorded'',
           n_message = LateMessage ''ICT651'' 20, n_type = ''warning'', n_courseCode = ''ICT651''\<rparr>]
   \<and> \<not> is_success (fst (attendance (env_at 0 (at_clock 0 9 20 0) (Fin 90) []) (request_S ''ICT999'' reference_S) store0))
   \<and> notifications (fst (snd (attendance (env_at 0 (at_clock 0 9 20 0) (Fin 90) []) (request_S ''ICT999'' reference_S) store0)))
       = notifications store0"
proof -
  let ?E = "env_at 0 (at_clock 0 9 20 0) (Fin 90) []"
  let ?R = "request_S ''ICT651'' reference_S"
  let ?R' = "request_S ''ICT999'' reference_S"
  let ?n = "\<lparr>n_userId = ''S1'', n_title = ''Late Attendance Recorded'',
           n_message = LateMessage ''ICT651'' 20, n_type = ''warning'', n_courseCode = ''ICT651''\<rparr>"
  have 1: "Db SaveNotification \<in> set (snd (snd (attendance ?E ?R store0)))"
    by (simp add: handler_defs scenario_defs toUpperCase_ICT651)
  have 2: "Db SaveNotification \<in> set (snd (snd (attendance_image ?E ?R store0)))"
    by (simp add: handler_defs scenario_defs toUpperCase_ICT651)
  have 3: "notifications (fst (snd (attendance (?E\<lparr>e_fault := (e_fault ?E)(SaveNotification := True)\<rparr>) ?R store0))) = []"
    by (simp add: handler_defs scenario_defs toUpperCase_ICT651)
  have 4: "notifications (fst (snd (attendance ?E ?R store0))) = [?n]"
    by (simp add: handler_defs scenario_defs toUpperCase_ICT651)
  have 5: "notifications (fst (snd (attendance_image ?E ?R store0))) = [?n]"
    by (simp add: handler_defs scenario_defs toUpperCase_ICT651)
  have 6: "\<not> is_success (fst (attendance ?E ?R' store0))"
    by (simp add: handler_defs scenario_defs toUpperCase_ICT999)
  note T = late_notification_best_effort [of ?E ?R store0]
  note T' = late_notification_best_effort [of ?E ?R' store0]
  from T 1 2 have a: "is_success (fst (attendance ?E ?R store0))"
    "is_success (fst (attendance_image ?E ?R store0))"
    "\<exists>pre. snd (snd (attendance ?E ?R store0)) = pre @ [Db SaveAttendance, Db SaveNotification]"
    "\<exists>pre. snd (snd (attendance_image ?E ?R store0)) = pre @ [Db SaveAttendance, Db SaveNotification]"
    "fst (attendance (?E\<lparr>e_fault := (e_fault ?E)(SaveNotification := True)\<rparr>) ?R store0)
       = fst (attendance ?E ?R store0)"
    by blast+
  from T' 6 have b: "notifications (fst (snd (attendance ?E ?R' store0))) = notifications store0"
    by blast
  from 1 2 3 4 5 6 a b show ?thesis by blast
qed

subsection \<open>A save refused by the unique index\<close>

lemma embedding_commit_race:
  assumes "attendance_valid (p_attendance p)" and "\<not> e_fault env SaveAttendance"
      and "index_key (p_attendance p) \<in> index_key ` set (attendances s)"
  shows "commit attendance_catch env p tr s
           = (ErrorResponse 400 ''Attendance already marked for today'', s, tr @ [Db SaveAttendance])"
  using assms by (simp add: commit_def Attendance_save_def attendance_catch_def)

lemma image_commit_race:
  assumes "attendance_valid (p_attendance p)" and "\<not> e_fault env SaveAttendance"
      and "index_key (p_attendance p) \<in> index_key ` set (attendances s)"
  shows "commit attendance_image_catch env p tr s
           = (ErrorResponse 500 ''Failed to mark attendance. Please try again.'', s, tr @ [Db SaveAttendance])"
  using assms by (simp add: commit_def Attendance_save_def attendance_image_catch_def)

text \<open>
  Claim C4.  A save that the unique index refuses is to be answered like the duplicate
  check, with status 400.  Two requests of the student pass their checks on the same
  store and then commit one after the other.  On the embedding endpoint the second is
  answered 400 \<open>Attendance already marked for today\<close>; on the image endpoint it is
  answered 500 \<open>Failed to mark attendance. Please try again.\<close>
\<close>

theorem image_race_answered_as_fault:
  "attendance_image_decide (env_at 0 (at_clock 0 9 10 0) (Fin 100) []) (request_S ''ICT651'' reference_S) store0
     = Proceed (pending_S 0) [Db FindUser, Db FindCourse, Db FindAttendance, OracleCall]
   \<and> fst (run_commits
        [(Image, env_at 0 (at_clock 0 9 10 0) (Fin 100) [], pending_S 0,
            [Db FindUser, Db FindCourse, Db FindAttendance, OracleCall]),
         (Image, env_at 0 (at_clock 0 9 10 0) (Fin 100) [], pending_S 0,
            [Db FindUser, Db FindCourse, Db FindAttendance, OracleCall])] store0)
     = [SuccessResponse ''Attendance marked successfully'' (response_of (p_attendance (pending_S 0))),
        ErrorResponse 500 ''Failed to mark attendance. Please try again.'']
   \<and> attendance_decide (env_at 0 (at_clock 0 9 10 0) (Fin 100) []) (request_S ''ICT651'' reference_S) store0
     = Proceed (pending_S 0) [Db FindUser, Db FindCourse, Db FindAttendance, OracleCall]
   \<and> fst (run_commits
        [(Embedding, env_at 0 (at_clock 0 9 10 0) (Fin 100) [], pending_S 0,
            [Db FindUser, Db FindCourse, Db FindAttendance, OracleCall]),
         (Embedding, env_at 0 (at_clock 0 9 10 0) (Fin 100) [], pending_S 0,
            [Db FindUser, Db FindCourse, Db FindAttendance, OracleCall])] store0)
     = [SuccessResponse ''Attendance marked successfully'' (response_of (p_attendance (pending_S 0))),
        ErrorResponse 400 ''Attendance already marked for today'']"
  by (simp add: handler_defs scenario_defs toUpperCase_ICT651)

subsection \<open>The threshold\<close>

lemma toUpperCase_nonempty: "code \<noteq> [] \<Longrightarrow> toUpperCase code \<noteq> []"
  by (simp add: toUpperCase_def)

lemma findOne_None_key:
  assumes "Attendance_findOne sid code day s = None"
  shows "(sid, code, day) \<notin> index_key ` set (attendances s)"
  using assms by (auto simp add: Attendance_findOne_def find_None_iff index_key_def)

lemma new_Attendance_key:
  "index_key (new_Attendance env req c sim cl) = (r_studentId req, toUpperCase (x_courseCode c), x_today c)"
  by (simp add: new_Attendance_def index_key_def)

lemma commit_succeeds:
  assumes "attendance_valid (p_attendance p)" and "\<not> e_fault env SaveAttendance"
      and "index_key (p_attendance p) \<notin> index_key ` set (attendances s)"
  shows "fst (commit catch env p tr s)
           = SuccessResponse (if p_isLate p then ''Attendance marked successfully (Late)''
                              else ''Attendance marked successfully'')
                (response_of (p_attendance p))"
  using assms by (simp add: commit_def Attendance_save_def)

lemma attendance_below_threshold:
  assumes "attendance_similarity env req s = Some score" and "js_lt score (Fin 0.85)"
  shows "fst (attendance env req s) = ErrorResponse 400 ''Face verification failed. Please try again.''"
proof -
  obtain c fd tr where c: "attendance_checks env req s = Inr (c, fd, tr)"
    and sc: "computeCosineSimilarity (u_faceEncodings (x_student c)) fd = score"
    using assms(1) by (auto simp add: attendance_similarity_def split: sum.splits)
  then show ?thesis using assms(2)
    by (simp add: attendance_def attendance_decide_def attendance_verify_def SIMILARITY_THRESHOLD_def)
qed

lemma attendance_image_below_threshold:
  assumes "attendance_image_similarity env req s = Some score" and "js_lt score (Fin 0.85)"
  shows "fst (attendance_image env req s) = ErrorResponse 400 ''Face verification failed. Please try again.''"
proof -
  obtain c tr where c: "attendance_image_checks env req s = Inr (c, tr)"
    and sc: "faceppCompare (e_compare_reply env) = Inr score"
    using assms(1) by (auto simp add: attendance_image_similarity_def split: sum.splits)
  then show ?thesis using assms(2)
    by (simp add: attendance_image_def attendance_image_decide_def attendance_image_verify_def
          SIMILARITY_THRESHOLD_image_def)
qed

lemma attendance_at_threshold:
  assumes "attendance_similarity env req s = Some (Fin 0.85)"
  shows "fst (attendance env req s) \<noteq> ErrorResponse 400 ''Face verification failed. Please try again.''"
    and "r_studentId req \<noteq> [] \<Longrightarrow> notes_trim (r_notes req) \<noteq> None \<Longrightarrow> \<not> e_fault env SaveAttendance
         \<Longrightarrow> \<exists>m d. fst (attendance env req s) = SuccessResponse m d \<and> d_confidenceScore d = Fin 0.85"
proof -
  obtain c fd tr where c: "attendance_checks env req s = Inr (c, fd, tr)"
    and sc: "computeCosineSimilarity (u_faceEncodings (x_student c)) fd = Fin 0.85"
    using assms(1) by (auto simp add: attendance_similarity_def split: sum.splits)
  obtain res s' t where run: "attendance env req s = (res, s', t)"
    by (cases "attendance env req s") auto
  note ck = attendance_checks_Inr [OF c]
  from run show "fst (attendance env req s) \<noteq> ErrorResponse 400 ''Face verification failed. Please try again.''"
  proof (cases rule: attendance_run)
    case checks
    then show ?thesis using c by simp
  next
    case (failed c' fd' t')
    then show ?thesis using c sc by (simp add: SIMILARITY_THRESHOLD_def)
  next
    case (bad_notes c' fd' t')
    then show ?thesis using run by (simp add: attendance_catch_def)
  next
    case (commit c' fd' t' p)
    from commit_cases [OF commit(8)] show ?thesis using run
      by (auto simp add: attendance_catch_def split: if_splits)
  qed
  assume sid: "r_studentId req \<noteq> []" and n: "notes_trim (r_notes req) \<noteq> None"
    and f: "\<not> e_fault env SaveAttendance"
  from run show "\<exists>m d. fst (attendance env req s) = SuccessResponse m d \<and> d_confidenceScore d = Fin 0.85"
  proof (cases rule: attendance_run)
    case checks
    then show ?thesis using c by simp
  next
    case (failed c' fd' t')
    then show ?thesis using c sc by (simp add: SIMILARITY_THRESHOLD_def)
  next
    case (bad_notes c' fd' t')
    then show ?thesis using n by simp
  next
    case (commit c' fd' t' p)
    then have eq: "c' = c" "fd' = fd" using c by simp_all
    have pa: "p_attendance p = new_Attendance env req c (Fin 0.85)
          (classify (e_clock_current env) (setHours9 (e_tzOffset env) (e_clock_start env)))"
      using commit(4) eq sc by simp
    have v: "attendance_valid (p_attendance p)"
      using sid ck toUpperCase_nonempty [of "x_courseCode c"]
      by (simp add: pa attendance_valid_def new_Attendance_def)
    have "Attendance_findOne (r_studentId req) (toUpperCase (x_courseCode c)) (x_today c) s = None"
      using ck by blast
    from findOne_None_key [OF this]
    have k: "index_key (p_attendance p) \<notin> index_key ` set (attendances s)"
      by (simp add: pa new_Attendance_key)
    from commit_succeeds [OF v f k, of attendance_catch "t' @ [OracleCall]"] commit(8) run
    show ?thesis by (simp add: response_of_def pa new_Attendance_def)
  qed
qed

lemma attendance_image_at_threshold:
  assumes "attendance_image_similarity env req s = Some (Fin 0.85)"
  shows "fst (attendance_image env req s) \<noteq> ErrorResponse 400 ''Face verification failed. Please try again.''"
    and "r_studentId req \<noteq> [] \<Longrightarrow> notes_trim (r_notes req) \<noteq> None \<Longrightarrow> \<not> e_fault env SaveAttendance
         \<Longrightarrow> \<exists>m d. fst (attendance_image env req s) = SuccessResponse m d \<and> d_confidenceScore d = Fin 0.85"
proof -
  obtain c tr where c: "attendance_image_checks env req s = Inr (c, tr)"
    and sc: "faceppCompare (e_compare_reply env) = Inr (Fin 0.85)"
    using assms(1) by (auto simp add: attendance_image_similarity_def split: sum.splits)
  obtain res s' t where run: "attendance_image env req s = (res, s', t)"
    by (cases "attendance_image env req s") auto
  note ck = attendance_image_checks_Inr [OF c]
  from run show "fst (attendance_image env req s) \<noteq> ErrorResponse 400 ''Face verification failed. Please try again.''"
  proof (cases rule: attendance_image_run)
    case checks
    then show ?thesis using c by simp
  next
    case (unavailable c' t' e)
    then show ?thesis using sc by simp
  next
    case (failed c' t' sim)
    from failed(2) sc have "sim = Fin 0.85" by simp
    with failed(3) show ?thesis by (simp add: SIMILARITY_THRESHOLD_image_def)
  next
    case (bad_notes c' t' sim)
    then show ?thesis using run by (simp add: attendance_image_catch_def)
  next
    case (commit c' t' sim p)
    from commit_cases [OF commit(9)] show ?thesis using run
      by (auto simp add: attendance_image_catch_def)
  qed
  assume sid: "r_studentId req \<noteq> []" and n: "notes_trim (r_notes req) \<noteq> None"
    and f: "\<not> e_fault env SaveAttendance"
  from run show "\<exists>m d. fst (attendance_image env req s) = SuccessResponse m d \<and> d_confidenceScore d = Fin 0.85"
  proof (cases rule: attendance_image_run)
    case checks
    then show ?thesis using c by simp
  next
    case (unavailable c' t' e)
    then show ?thesis using sc by simp
  next
    case (failed c' t' sim)
    from failed(2) sc have "sim = Fin 0.85" by simp
    with failed(3) show ?thesis by (simp add: SIMILARITY_THRESHOLD_image_def)
  next
    case (bad_notes c' t' sim)
    then show ?thesis using n by simp
  next
    case (commit c' t' sim p)
    then have eq: "c' = c" "sim = Fin 0.85" using c sc by simp_all
    have pa: "p_attendance p = new_Attendance env req c (Fin 0.85)
          (classify (e_clock_current env) (setHours9 (e_tzOffset env) (e_clock_start env)))"
      using commit(5) eq by simp
    have v: "attendance_valid (p_attendance p)"
      using sid ck toUpperCase_nonempty [of "x_courseCode c"]
      by (simp add: pa attendance_valid_def new_Attendance_def)
    have "Attendance_findOne (r_studentId req) (toUpperCase (x_courseCode c)) (x_today c) s = None"
      using ck by blast
    from findOne_None_key [OF this]
    have k: "index_key (p_attendance p) \<notin> index_key ` set (attendances s)"
      by (simp add: pa new_Attendance_key)
    from commit_succeeds [OF v f k, of attendance_image_catch "t' @ [OracleCall]"] commit(9) run
    show ?thesis by (simp add: response_of_def pa new_Attendance_def)
  qed
qed

text \<open>
  Claim C3.  The threshold is the constant 0.85 on both endpoints.  A run that reaches
  the verification step with a score below 0.85 is answered
  \<open>Face verification failed. Please try again.\<close>  A run that reaches it with the score
  0.85 exactly is not answered so, and when the notes are well formed, the student
  identifier is not empty and the save is not interrupted, it is answered with success
  and the score 0.85.
\<close>

theorem similarity_threshold_boundary:
  "SIMILARITY_THRESHOLD = Fin 0.85 \<and> SIMILARITY_THRESHOLD_image = Fin 0.85
 \<and> (attendance_similarity env req s = Some score \<and> js_lt score (Fin 0.85) \<longrightarrow>
      fst (attendance env req s) = ErrorResponse 400 ''Face verification failed. Please try again.'')
 \<and> (attendance_image_similarity env req s = Some score' \<and> js_lt score' (Fin 0.85) \<longrightarrow>
      fst (attendance_image env req s) = ErrorResponse 400 ''Face verification failed. Please try again.'')
 \<and> (attendance_similarity env' req' s' = Some (Fin 0.85) \<longrightarrow>
      fst (attendance env' req' s') \<noteq> ErrorResponse 400 ''Face verification failed. Please try again.'' \<and>
      (r_studentId req' \<noteq> [] \<and> notes_trim (r_notes req') \<noteq> None \<and> \<not> e_fault env' SaveAttendance \<longrightarrow>
         (\<exists>m d. fst (attendance env' req' s') = SuccessResponse m d \<and> d_confidenceScore d = Fin 0.85)))
 \<and> (attendance_image_similarity env' req' s' = Some (Fin 0.85) \<longrightarrow>
      fst (attendance_image env' req' s') \<noteq> ErrorResponse 400 ''Face verification failed. Please try again.'' \<and>
      (r_studentId req' \<noteq> [] \<and> notes_trim (r_notes req') \<noteq> None \<and> \<not> e_fault env' SaveAttendance \<longrightarrow>
         (\<exists>m d. fst (attendance_image env' req' s') = SuccessResponse m d \<and> d_confidenceScore d = Fin 0.85)))"
  using attendance_below_threshold [of env req s score]
    attendance_image_below_threshold [of env req s score']
    attendance_at_threshold [of env' req' s'] attendance_image_at_threshold [of env' req' s']
  by (simp add: SIMILARITY_THRESHOLD_def SIMILARITY_THRESHOLD_image_def)

theorem similarity_threshold_boundary_witness:
  "attendance_similarity (env_at 0 (at_clock 0 9 10 0) (Fin 84) []) (request_S ''ICT651'' sample_other) store0 = Some (Fin 0)
 \<and> fst (attendance (env_at 0 (at_clock 0 9 10 0) (Fin 84) []) (request_S ''ICT651'' sample_other) store0)
      = ErrorResponse 400 ''Face verification failed. Please try again.''
 \<and> attendance_image_similarity (env_at 0 (at_clock 0 9 10 0) (Fin 84) []) (request_S ''ICT651'' sample_other) store0
      = Some (Fin (84 / 100))
 \<and> fst (attendance_image (env_at 0 (at_clock 0 9 10 0) (Fin 84) []) (request_S ''ICT651'' sample_other) store0)
      = ErrorResponse 400 ''Face verification failed. Please try again.''
 \<and> attendance_similarity (env_at 0 (at_clock 0 9 10 0) (Fin 85) []) (request_S ''ICT651'' sample_085) store0
      = Some (Fin 0.85)
 \<and> (\<exists>m d. fst (attendance (env_at 0 (at_clock 0 9 10 0) (Fin 85) []) (request_S ''ICT651'' sample_085) store0)
             = SuccessResponse m d \<and> d_confidenceScore d = Fin 0.85)
 \<and> attendance_image_similarity (env_at 0 (at_clock 0 9 10 0) (Fin 85) []) (request_S ''ICT651'' sample_085) store0
      = Some (Fin 0.85)
 \<and> (\<exists>m d. fst (attendance_image (env_at 0 (at_clock 0 9 10 0) (Fin 85) []) (request_S ''ICT651'' sample_085) store0)
             = SuccessResponse m d \<and> d_confidenceScore d = Fin 0.85)"
proof -
  let ?E = "env_at 0 (at_clock 0 9 10 0) (Fin 84) []"
  let ?R = "request_S ''ICT651'' sample_other"
  let ?E' = "env_at 0 (at_clock 0 9 10 0) (Fin 85) []"
  let ?R' = "request_S ''ICT651'' sample_085"
  have 1: "attendance_similarity ?E ?R store0 = Some (Fin 0)"
    by (simp add: attendance_similarity_def handler_defs scenario_defs toUpperCase_ICT651)
  have 2: "attendance_image_similarity ?E ?R store0 = Some (Fin (84 / 100))"
    by (simp add: attendance_image_similarity_def handler_defs scenario_defs toUpperCase_ICT651)
  have 3: "attendance_similarity ?E' ?R' store0 = Some (Fin 0.85)"
    by (simp add: attendance_similarity_def handler_defs scenario_defs toUpperCase_ICT651)
  have 4: "attendance_image_similarity ?E' ?R' store0 = Some (Fin 0.85)"
    by (simp add: attendance_image_similarity_def handler_defs scenario_defs toUpperCase_ICT651)
  have 5: "r_studentId ?R' \<noteq> [] \<and> notes_trim (r_notes ?R') \<noteq> None \<and> \<not> e_fault ?E' SaveAttendance"
    by (simp add: scenario_defs)
  have 6: "js_lt (Fin 0) (Fin 0.85)" "js_lt (Fin (84 / 100)) (Fin 0.85)"
    by simp_all
  note T = similarity_threshold_boundary [of ?E ?R store0 "Fin 0" "Fin (84 / 100)" ?E' ?R' store0]
  from T 1 6(1)
  have a: "fst (attendance ?E ?R store0) = ErrorResponse 400 ''Face verification failed. Please try again.''"
    by blast
  from T 2 6(2)
  have b: "fst (attendance_image ?E ?R store0) = ErrorResponse 400 ''Face verification failed. Please try again.''"
    by blast
  from T 3 5
  have c: "\<exists>m d. fst (attendance ?E' ?R' store0) = SuccessResponse m d \<and> d_confidenceScore d = Fin 0.85"
    by blast
  from T 4 5
  have d: "\<exists>m d. fst (attendance_image ?E' ?R' store0) = SuccessResponse m d \<and> d_confidenceScore d = Fin 0.85"
    by blast
  from 1 2 3 4 a b c d show ?thesis by blast
qed

subsection \<open>Lateness\<close>

lemma classify_whole_minutes:
  "classify now T =
     (if now \<le> T \<or> (now - T) div MS_PER_MINUTE \<le> 15 then (Present, False, 0)
      else (Late, True, (now - T) div MS_PER_MINUTE))"
  by (auto simp add: classify_def MS_PER_MINUTE_def Let_def)

lemma whole_minutes_late: "(15 < (now - T) div (60000::int)) = (960000 \<le> now - T)"
  by linarith

lemma whole_minutes_early: "now \<le> T \<Longrightarrow> (now - T) div (60000::int) \<le> 15"
  by linarith

lemma late_iff_sixteen_minutes:
  "(now - T) div MS_PER_MINUTE > 15 \<longleftrightarrow> now - T \<ge> 16 * MS_PER_MINUTE"
  using whole_minutes_late [of now T] by (simp add: MS_PER_MINUTE_def)

lemma attendance_success:
  assumes "is_success (fst (attendance env req s))"
  shows "\<exists>a code. attendances (fst (snd (attendance env req s))) = attendances s @ [a]
           \<and> fst (attendance env req s)
               = SuccessResponse (if a_isLate a then ''Attendance marked successfully (Late)''
                                  else ''Attendance marked successfully'') (response_of a)
           \<and> (a_status a, a_isLate a, a_lateMinutes a)
               = classify (e_clock_current env) (setHours9 (e_tzOffset env) (e_clock_start env))
           \<and> a_date a = toISODate (e_clock_today env)
           \<and> a_studentId a = r_studentId req
           \<and> r_courseCode req = JString code \<and> a_courseCode a = toUpperCase code
           \<and> index_key a \<notin> index_key ` set (attendances s)"
proof -
  obtain res s' t where run: "attendance env req s = (res, s', t)"
    by (cases "attendance env req s") auto
  from run show ?thesis
  proof (cases rule: attendance_run)
    case checks
    with attendance_checks_Inl [OF checks(1)] assms run show ?thesis by simp
  next
    case (failed c fd t')
    with assms run show ?thesis by simp
  next
    case (bad_notes c fd t')
    with assms run show ?thesis by (simp add: catch_not_success)
  next
    case (commit c fd t' p)
    note ck = attendance_checks_Inr [OF commit(1)]
    from assms run have ok: "is_success res" by simp
    from commit_error [OF commit(8) catch_not_success(1)] ok commit_cases [OF commit(8)]
    have "attendances s' = attendances s @ [p_attendance p]"
      and "res = SuccessResponse (if p_isLate p then ''Attendance marked successfully (Late)''
                                         else ''Attendance marked successfully'')
                          (response_of (p_attendance p))"
      and "index_key (p_attendance p) \<notin> index_key ` set (attendances s)"
      by (auto simp add: catch_not_success)
    then show ?thesis using run commit(4,5) ck
      by (auto simp add: new_Attendance_def)
  qed
qed

lemma attendance_image_success:
  assumes "is_success (fst (attendance_image env req s))"
  shows "\<exists>a code. attendances (fst (snd (attendance_image env req s))) = attendances s @ [a]
           \<and> fst (attendance_image env req s)
               = SuccessResponse (if a_isLate a then ''Attendance marked successfully (Late)''
                                  else ''Attendance marked successfully'') (response_of a)
           \<and> (a_status a, a_isLate a, a_lateMinutes a)
               = classify (e_clock_current env) (setHours9 (e_tzOffset env) (e_clock_start env))
           \<and> a_date a = toISODate (e_clock_today env)
           \<and> a_studentId a = r_studentId req
           \<and> r_courseCode req = JString code \<and> a_courseCode a = toUpperCase code
           \<and> index_key a \<notin> index_key ` set (attendances s)"
proof -
  obtain res s' t where run: "attendance_image env req s = (res, s', t)"
    by (cases "attendance_image env req s") auto
  from run show ?thesis
  proof (cases rule: attendance_image_run)
    case checks
    with attendance_image_checks_Inl [OF checks(1)] assms run show ?thesis by simp
  next
    case (unavailable c t' e)
    with assms run show ?thesis by simp
  next
    case (failed c t' sim)
    with assms run show ?thesis by simp
  next
    case (bad_notes c t' sim)
    with assms run show ?thesis by (simp add: catch_not_success)
  next
    case (commit c t' sim p)
    note ck = attendance_image_checks_Inr [OF commit(1)]
    from assms run have ok: "is_success res" by simp
    from commit_error [OF commit(9) catch_not_success(2)] ok commit_cases [OF commit(9)]
    have "attendances s' = attendances s @ [p_attendance p]"
      and "res = SuccessResponse (if p_isLate p then ''Attendance marked successfully (Late)''
                                         else ''Attendance marked successfully'')
                          (response_of (p_attendance p))"
      and "index_key (p_attendance p) \<notin> index_key ` set (attendances s)"
      by (auto simp add: catch_not_success)
    then show ?thesis using run commit(5,6) ck
      by (auto simp add: new_Attendance_def)
  qed
qed

lemma classified:
  assumes "(a_status a, a_isLate a, a_lateMinutes a) = classify now T"
  shows "(now \<le> T \<or> (now - T) div MS_PER_MINUTE \<le> 15 \<longrightarrow>
             a_status a = Present \<and> \<not> a_isLate a \<and> a_lateMinutes a = 0)
       \<and> ((now - T) div MS_PER_MINUTE > 15 \<longrightarrow>
             a_status a = Late \<and> a_isLate a \<and> a_lateMinutes a = (now - T) div MS_PER_MINUTE)"
proof -
  have "now \<le> T \<Longrightarrow> (now - T) div MS_PER_MINUTE \<le> 15"
    using whole_minutes_early [of now T] by (simp add: MS_PER_MINUTE_def)
  then show ?thesis using assms unfolding classify_whole_minutes
    by (auto split: if_splits)
qed

text \<open>
  Claim C2, as stated: an arrival more than 15 minutes after 09:00 is recorded late.
  At 09:15:30 the arrival is 15 minutes and 30 seconds after 09:00 and is recorded
  present, on both endpoints.
\<close>

theorem late_after_fifteen_minutes_counterexample:
  "e_clock_current (env_at 0 (at_clock 0 9 15 30) (Fin 90) [])
     - setHours9 (e_tzOffset (env_at 0 (at_clock 0 9 15 30) (Fin 90) []))
         (e_clock_start (env_at 0 (at_clock 0 9 15 30) (Fin 90) [])) > 15 * MS_PER_MINUTE
 \<and> fst (attendance (env_at 0 (at_clock 0 9 15 30) (Fin 90) []) (request_S ''ICT651'' reference_S) store0)
     = SuccessResponse ''Attendance marked successfully''
         \<lparr>d_courseCode = ''ICT651'', d_timestamp = at_clock 0 9 15 30, d_status = Present,
          d_confidenceScore = Fin 1, d_isLate = False, d_lateMinutes = 0\<rparr>
 \<and> fst (attendance_image (env_at 0 (at_clock 0 9 15 30) (Fin 90) []) (request_S ''ICT651'' reference_S) store0)
     = SuccessResponse ''Attendance marked successfully''
         \<lparr>d_courseCode = ''ICT651'', d_timestamp = at_clock 0 9 15 30, d_status = Present,
          d_confidenceScore = Fin (90 / 100), d_isLate = False, d_lateMinutes = 0\<rparr>"
  by (simp add: handler_defs scenario_defs toUpperCase_ICT651)


text \<open>
  Claim C2, amended.  With \<open>now\<close> the clock at the classification and \<open>T\<close> 09:00 local
  time, the document created by a successful request is present, not late, with 0 late
  minutes when \<open>now \<le> T\<close> or the whole minutes of \<open>now - T\<close> are at most 15; it is late,
  with \<open>lateMinutes\<close> the whole minutes of \<open>now - T\<close>, when these exceed 15, that is from
  16 minutes after \<open>T\<close> on.
\<close>

theorem lateness_in_whole_minutes:
  "(is_success (fst (attendance env req s)) \<longrightarrow>
      (\<exists>a. attendances (fst (snd (attendance env req s))) = attendances s @ [a] \<and>
           (\<exists>m. fst (attendance env req s) = SuccessResponse m (response_of a)) \<and>
           (e_clock_current env \<le> setHours9 (e_tzOffset env) (e_clock_start env) \<or>
            (e_clock_current env - setHours9 (e_tzOffset env) (e_clock_start env)) div MS_PER_MINUTE \<le> 15
              \<longrightarrow> a_status a = Present \<and> \<not> a_isLate a \<and> a_lateMinutes a = 0) \<and>
           ((e_clock_current env - setHours9 (e_tzOffset env) (e_clock_start env)) div MS_PER_MINUTE > 15
              \<longrightarrow> a_status a = Late \<and> a_isLate a \<and>
                  a_lateMinutes a =
                    (e_clock_current env - setHours9 (e_tzOffset env) (e_clock_start env)) div MS_PER_MINUTE)))
 \<and> (is_success (fst (attendance_image env req s)) \<longrightarrow>
      (\<exists>a. attendances (fst (snd (attendance_image env req s))) = attendances s @ [a] \<and>
           (\<exists>m. fst (attendance_image env req s) = SuccessResponse m (response_of a)) \<and>
           (e_clock_current env \<le> setHours9 (e_tzOffset env) (e_clock_start env) \<or>
            (e_clock_current env - setHours9 (e_tzOffset env) (e_clock_start env)) div MS_PER_MINUTE \<le> 15
              \<longrightarrow> a_status a = Present \<and> \<not> a_isLate a \<and> a_lateMinutes a = 0) \<and>
           ((e_clock_current env - setHours9 (e_tzOffset env) (e_clock_start env)) div MS_PER_MINUTE > 15
              \<longrightarrow> a_status a = Late \<and> a_isLate a \<and>
                  a_lateMinutes a =
                    (e_clock_current env - setHours9 (e_tzOffset env) (e_clock_start env)) div MS_PER_MINUTE)))
 \<and> ((e_clock_current env - setHours9 (e_tzOffset env) (e_clock_start env)) div MS_PER_MINUTE > 15
      \<longleftrightarrow> e_clock_current env - setHours9 (e_tzOffset env) (e_clock_start env) \<ge> 16 * MS_PER_MINUTE)"
proof (intro conjI impI)
  assume "is_success (fst (attendance env req s))"
  from attendance_success [OF this] obtain a code where
    a: "attendances (fst (snd (attendance env req s))) = attendances s @ [a]"
      "fst (attendance env req s)
         = SuccessResponse (if a_isLate a then ''Attendance marked successfully (Late)''
                            else ''Attendance marked successfully'') (response_of a)"
      "(a_status a, a_isLate a, a_lateMinutes a)
         = classify (e_clock_current env) (setHours9 (e_tzOffset env) (e_clock_start env))"
    by blast
  from a(1,2) classified [OF a(3)]
  show "\<exists>a. attendances (fst (snd (attendance env req s))) = attendances s @ [a] \<and>
           (\<exists>m. fst (attendance env req s) = SuccessResponse m (response_of a)) \<and>
           (e_clock_current env \<le> setHours9 (e_tzOffset env) (e_clock_start env) \<or>
            (e_clock_current env - setHours9 (e_tzOffset env) (e_clock_start env)) div MS_PER_MINUTE \<le> 15
              \<longrightarrow> a_status a = Present \<and> \<not> a_isLate a \<and> a_lateMinutes a = 0) \<and>
           ((e_clock_current env - setHours9 (e_tzOffset env) (e_clock_start env)) div MS_PER_MINUTE > 15
              \<longrightarrow> a_status a = Late \<and> a_isLate a \<and>
                  a_lateMinutes a =
                    (e_clock_current env - setHours9 (e_tzOffset env) (e_clock_start env)) div MS_PER_MINUTE)"
    by blast
next
  assume "is_success (fst (attendance_image env req s))"
  from attendance_image_success [OF this] obtain a code where
    a: "attendances (fst (snd (attendance_image env req s))) = attendances s @ [a]"
      "fst (attendance_image env req s)
         = SuccessResponse (if a_isLate a then ''Attendance marked successfully (Late)''
                            else ''Attendance marked successfully'') (response_of a)"
      "(a_status a, a_isLate a, a_lateMinutes a)
         = classify (e_clock_current env) (setHours9 (e_tzOffset env) (e_clock_start env))"
    by blast
  from a(1,2) classified [OF a(3)]
  show "\<exists>a. attendances (fst (snd (attendance_image env req s))) = attendances s @ [a] \<and>
           (\<exists>m. fst (attendance_image env req s) = SuccessResponse m (response_of a)) \<and>
           (e_clock_current env \<le> setHours9 (e_tzOffset env) (e_clock_start env) \<or>
            (e_clock_current env - setHours9 (e_tzOffset env) (e_clock_start env)) div MS_PER_MINUTE \<le> 15
              \<longrightarrow> a_status a = Present \<and> \<not> a_isLate a \<and> a_lateMinutes a = 0) \<and>
           ((e_clock_current env - setHours9 (e_tzOffset env) (e_clock_start env)) div MS_PER_MINUTE > 15
              \<longrightarrow> a_status a = Late \<and> a_isLate a \<and>
                  a_lateMinutes a =
                    (e_clock_current env - setHours9 (e_tzOffset env) (e_clock_start env)) div MS_PER_MINUTE)"
    by blast
next
  show "(e_clock_current env - setHours9 (e_tzOffset env) (e_clock_start env)) div MS_PER_MINUTE > 15
      \<longleftrightarrow> e_clock_current env - setHours9 (e_tzOffset env) (e_clock_start env) \<ge> 16 * MS_PER_MINUTE"
    by (rule late_iff_sixteen_minutes)
qed

theorem lateness_in_whole_minutes_witness:
  "is_success (fst (attendance (env_at 0 (at_clock 0 9 20 0) (Fin 90) []) (request_S ''ICT651'' reference_S) store0))
 \<and> is_success (fst (attendance_image (env_at 0 (at_clock 0 9 20 0) (Fin 90) []) (request_S ''ICT651'' reference_S) store0))
 \<and> (e_clock_current (env_at 0 (at_clock 0 9 20 0) (Fin 90) [])
      - setHours9 (e_tzOffset (env_at 0 (at_clock 0 9 20 0) (Fin 90) []))
          (e_clock_start (env_at 0 (at_clock 0 9 20 0) (Fin 90) []))) div MS_PER_MINUTE = 20
 \<and> (\<exists>a. attendances (fst (snd (attendance (env_at 0 (at_clock 0 9 20 0) (Fin 90) [])
                                    (request_S ''ICT651'' reference_S) store0))) = attendances store0 @ [a]
        \<and> a_status a = Late \<and> a_isLate a \<and> a_lateMinutes a = 20)
 \<and> (\<exists>a. attendances (fst (snd (attendance_image (env_at 0 (at_clock 0 9 20 0) (Fin 90) [])
                                    (request_S ''ICT651'' reference_S) store0))) = attendances store0 @ [a]
        \<and> a_status a = Late \<and> a_isLate a \<and> a_lateMinutes a = 20)"
proof -
  let ?E = "env_at 0 (at_clock 0 9 20 0) (Fin 90) []"
  let ?R = "request_S ''ICT651'' reference_S"
  have 1: "is_success (fst (attendance ?E ?R store0))"
    by (simp add: handler_defs scenario_defs toUpperCase_ICT651)
  have 2: "is_success (fst (attendance_image ?E ?R store0))"
    by (simp add: handler_defs scenario_defs toUpperCase_ICT651)
  have 3: "(e_clock_current ?E - setHours9 (e_tzOffset ?E) (e_clock_start ?E)) div MS_PER_MINUTE = 20"
    by (simp add: scenario_defs setHours9_def localDate_def MS_PER_DAY_def MS_PER_MINUTE_def)
  note T = lateness_in_whole_minutes [of ?E ?R store0]
  from T 1 3
  have a: "\<exists>a. attendances (fst (snd (attendance ?E ?R store0))) = attendances store0 @ [a]
        \<and> a_status a = Late \<and> a_isLate a \<and> a_lateMinutes a = 20"
    by auto
  from T 2 3
  have b: "\<exists>a. attendances (fst (snd (attendance_image ?E ?R store0))) = attendances store0 @ [a]
        \<and> a_status a = Late \<and> a_isLate a \<and> a_lateMinutes a = 20"
    by auto
  from 1 2 3 a b show ?thesis by blast
qed


subsection \<open>The date key\<close>

lemma toISODate_utc: "toISODate t = localDate 0 t"
  by (simp add: toISODate_def localDate_def)

lemma attendance_checks_duplicate:
  assumes "attendance_checks env req s
             = Inl (ErrorResponse 400 ''Attendance already marked for today in this course'', tr)"
  shows "\<exists>code b. r_courseCode req = JString code \<and>
           Attendance_findOne (r_studentId req) (toUpperCase code) (toISODate (e_clock_today env)) s = Some b"
  using assms
  by (auto simp add: attendance_checks_def attendance_catch_def Let_def
           split: if_splits option.splits jsval.splits)

lemma attendance_image_checks_duplicate:
  assumes "attendance_image_checks env req s
             = Inl (ErrorResponse 400 ''Attendance already marked for today in this course'', tr)"
  shows "\<exists>code b. r_courseCode req = JString code \<and>
           Attendance_findOne (r_studentId req) (toUpperCase code) (toISODate (e_clock_today env)) s = Some b"
  using assms
  by (auto simp add: attendance_image_checks_def attendance_image_catch_def Let_def
           split: if_splits option.splits jsval.splits)

lemma findOne_Some_key:
  assumes "Attendance_findOne sid code day s = Some b"
  shows "b \<in> set (attendances s) \<and> a_studentId b = sid \<and> a_courseCode b = code \<and> a_date b = day"
  using assms by (auto simp add: Attendance_findOne_def find_Some_iff)

lemma attendance_duplicate:
  assumes "fst (attendance env req s) = ErrorResponse 400 ''Attendance already marked for today in this course''"
  shows "\<exists>code. r_courseCode req = JString code \<and>
           (\<exists>b\<in>set (attendances s). a_studentId b = r_studentId req \<and> a_courseCode b = toUpperCase code \<and>
              a_date b = toISODate (e_clock_today env))"
proof -
  obtain res s' t where run: "attendance env req s = (res, s', t)"
    by (cases "attendance env req s") auto
  from attendance_trace [OF run] assms run
  have nt: "OracleCall \<notin> set t" by auto
  from run show ?thesis
  proof (cases rule: attendance_run)
    case checks
    with assms run attendance_checks_duplicate [of env req s t] findOne_Some_key
    show ?thesis by fastforce
  next
    case (commit c fd t' p)
    from commit_error [OF commit(8) catch_not_success(1)] nt show ?thesis by simp
  qed (use nt in simp_all)
qed

lemma attendance_image_duplicate:
  assumes "fst (attendance_image env req s) = ErrorResponse 400 ''Attendance already marked for today in this course''"
  shows "\<exists>code. r_courseCode req = JString code \<and>
           (\<exists>b\<in>set (attendances s). a_studentId b = r_studentId req \<and> a_courseCode b = toUpperCase code \<and>
              a_date b = toISODate (e_clock_today env))"
proof -
  obtain res s' t where run: "attendance_image env req s = (res, s', t)"
    by (cases "attendance_image env req s") auto
  from attendance_image_trace [OF run] assms run
  have nt: "OracleCall \<notin> set t" by auto
  from run show ?thesis
  proof (cases rule: attendance_image_run)
    case checks
    with assms run attendance_image_checks_duplicate [of env req s t] findOne_Some_key
    show ?thesis by fastforce
  next
    case (commit c t' sim p)
    from commit_error [OF commit(9) catch_not_success(2)] nt show ?thesis by simp
  qed (use nt in simp_all)
qed
text \<open>
  Claim C8, as stated: the date of the document is the day on the server's local
  calendar.  On a server five hours east of UTC, a request at 21:00 UTC, which is 02:00
  on the next local day, is stored under the day before.
\<close>

theorem date_key_is_local_day_counterexample:
  "localDate (e_tzOffset (env_at 300 (at_clock 0 21 0 0) (Fin 90) []))
             (e_clock_today (env_at 300 (at_clock 0 21 0 0) (Fin 90) [])) = 1
 \<and> map a_date (attendances (fst (snd (attendance (env_at 300 (at_clock 0 21 0 0) (Fin 90) [])
                                         (request_S ''ICT651'' reference_S) store0)))) = [0]
 \<and> map a_date (attendances (fst (snd (attendance_image (env_at 300 (at_clock 0 21 0 0) (Fin 90) [])
                                         (request_S ''ICT651'' reference_S) store0)))) = [0]"
  by (simp add: handler_defs scenario_defs toUpperCase_ICT651)


text \<open>
  Claim C8, amended.  The date key is the UTC day of the instant at which the handler
  computes \<open>today\<close>: the document created by a successful request carries it, no
  document of the same student and course with that key was there before, and a request
  answered \<open>Attendance already marked for today in this course\<close> found a document of
  the student with that key.  The key is the local day on a server whose zone is UTC.
\<close>

theorem date_key_is_utc_day:
  "(is_success (fst (attendance env req s)) \<longrightarrow>
      (\<exists>a. attendances (fst (snd (attendance env req s))) = attendances s @ [a] \<and>
           a_date a = toISODate (e_clock_today env) \<and>
           (\<forall>b\<in>set (attendances s).
              \<not> (a_studentId b = a_studentId a \<and> a_courseCode b = a_courseCode a \<and>
                 a_date b = toISODate (e_clock_today env)))))
 \<and> (is_success (fst (attendance_image env req s)) \<longrightarrow>
      (\<exists>a. attendances (fst (snd (attendance_image env req s))) = attendances s @ [a] \<and>
           a_date a = toISODate (e_clock_today env) \<and>
           (\<forall>b\<in>set (attendances s).
              \<not> (a_studentId b = a_studentId a \<and> a_courseCode b = a_courseCode a \<and>
                 a_date b = toISODate (e_clock_today env)))))
 \<and> (fst (attendance env' req' s') = ErrorResponse 400 ''Attendance already marked for today in this course'' \<longrightarrow>
      (\<exists>b\<in>set (attendances s').
         a_studentId b = r_studentId req' \<and> a_date b = toISODate (e_clock_today env')))
 \<and> (fst (attendance_image env' req' s') = ErrorResponse 400 ''Attendance already marked for today in this course'' \<longrightarrow>
      (\<exists>b\<in>set (attendances s').
         a_studentId b = r_studentId req' \<and> a_date b = toISODate (e_clock_today env')))
 \<and> toISODate t = t div 86400000
 \<and> toISODate t = localDate 0 t"
proof (intro conjI impI)
  assume "is_success (fst (attendance env req s))"
  from attendance_success [OF this] obtain a where
    a: "attendances (fst (snd (attendance env req s))) = attendances s @ [a]"
      "a_date a = toISODate (e_clock_today env)"
      "index_key a \<notin> index_key ` set (attendances s)"
    by blast
  from a(3) a(2) have "\<forall>b\<in>set (attendances s).
              \<not> (a_studentId b = a_studentId a \<and> a_courseCode b = a_courseCode a \<and>
                 a_date b = toISODate (e_clock_today env))"
    by (auto simp add: index_key_def image_iff)
  with a(1,2)
  show "\<exists>a. attendances (fst (snd (attendance env req s))) = attendances s @ [a] \<and>
           a_date a = toISODate (e_clock_today env) \<and>
           (\<forall>b\<in>set (attendances s).
              \<not> (a_studentId b = a_studentId a \<and> a_courseCode b = a_courseCode a \<and>
                 a_date b = toISODate (e_clock_today env)))"
    by blast
next
  assume "is_success (fst (attendance_image env req s))"
  from attendance_image_success [OF this] obtain a where
    a: "attendances (fst (snd (attendance_image env req s))) = attendances s @ [a]"
      "a_date a = toISODate (e_clock_today env)"
      "index_key a \<notin> index_key ` set (attendances s)"
    by blast
  from a(3) a(2) have "\<forall>b\<in>set (attendances s).
              \<not> (a_studentId b = a_studentId a \<and> a_courseCode b = a_courseCode a \<and>
                 a_date b = toISODate (e_clock_today env))"
    by (auto simp add: index_key_def image_iff)
  with a(1,2)
  show "\<exists>a. attendances (fst (snd (attendance_image env req s))) = attendances s @ [a] \<and>
           a_date a = toISODate (e_clock_today env) \<and>
           (\<forall>b\<in>set (attendances s).
              \<not> (a_studentId b = a_studentId a \<and> a_courseCode b = a_courseCode a \<and>
                 a_date b = toISODate (e_clock_today env)))"
    by blast
next
  assume "fst (attendance env' req' s') = ErrorResponse 400 ''Attendance already marked for today in this course''"
  from attendance_duplicate [OF this]
  show "\<exists>b\<in>set (attendances s').
         a_studentId b = r_studentId req' \<and> a_date b = toISODate (e_clock_today env')"
    by blast
next
  assume "fst (attendance_image env' req' s') = ErrorResponse 400 ''Attendance already marked for today in this course''"
  from attendance_image_duplicate [OF this]
  show "\<exists>b\<in>set (attendances s').
         a_studentId b = r_studentId req' \<and> a_date b = toISODate (e_clock_today env')"
    by blast
next
  show "toISODate t = t div 86400000" by (simp add: toISODate_def MS_PER_DAY_def)
next
  show "toISODate t = localDate 0 t" by (rule toISODate_utc)
qed


theorem date_key_is_utc_day_witness:
  "is_success (fst (attendance (env_at 300 (at_clock 0 18 0 0) (Fin 90) []) (request_S ''ICT651'' reference_S) store0))
 \<and> is_success (fst (attendance_image (env_at 300 (at_clock 0 18 0 0) (Fin 90) []) (request_S ''ICT651'' reference_S) store0))
 \<and> toISODate (e_clock_today (env_at 300 (at_clock 0 18 0 0) (Fin 90) [])) = 0
 \<and> (\<exists>a. attendances (fst (snd (attendance (env_at 300 (at_clock 0 18 0 0) (Fin 90) [])
                                   (request_S ''ICT651'' reference_S) store0))) = attendances store0 @ [a]
        \<and> a_date a = 0)
 \<and> (\<exists>a. attendances (fst (snd (attendance_image (env_at 300 (at_clock 0 18 0 0) (Fin 90) [])
                                   (request_S ''ICT651'' reference_S) store0))) = attendances store0 @ [a]
        \<and> a_date a = 0)
 \<and> localDate 300 (at_clock 0 18 0 0) = 0 \<and> localDate 300 (at_clock 0 21 0 0) = 1
 \<and> fst (attendance (env_at 300 (at_clock 0 21 0 0) (Fin 90) []) (request_S ''ICT651'' reference_S)
       (fst (snd (attendance (env_at 300 (at_clock 0 18 0 0) (Fin 90) [])
                    (request_S ''ICT651'' reference_S) store0))))
     = ErrorResponse 400 ''Attendance already marked for today in this course''
 \<and> fst (attendance_image (env_at 300 (at_clock 0 21 0 0) (Fin 90) []) (request_S ''ICT651'' reference_S)
       (fst (snd (attendance (env_at 300 (at_clock 0 18 0 0) (Fin 90) [])
                    (request_S ''ICT651'' reference_S) store0))))
     = ErrorResponse 400 ''Attendance already marked for today in this course''
 \<and> (\<exists>b\<in>set (attendances (fst (snd (attendance (env_at 300 (at_clock 0 18 0 0) (Fin 90) [])
                    (request_S ''ICT651'' reference_S) store0)))).
       a_studentId b = ''S1'' \<and> a_date b = toISODate (at_clock 0 21 0 0))"
proof -
  let ?E = "env_at 300 (at_clock 0 18 0 0) (Fin 90) []"
  let ?E' = "env_at 300 (at_clock 0 21 0 0) (Fin 90) []"
  let ?R = "request_S ''ICT651'' reference_S"
  let ?s1 = "fst (snd (attendance ?E ?R store0))"
  have 1: "is_success (fst (attendance ?E ?R store0))"
    by (simp add: handler_defs scenario_defs toUpperCase_ICT651)
  have 2: "is_success (fst (attendance_image ?E ?R store0))"
    by (simp add: handler_defs scenario_defs toUpperCase_ICT651)
  have 3: "toISODate (e_clock_today ?E) = 0"
    by (simp add: scenario_defs toISODate_def MS_PER_DAY_def)
  have 4: "localDate 300 (at_clock 0 18 0 0) = 0 \<and> localDate 300 (at_clock 0 21 0 0) = 1"
    by (simp add: scenario_defs localDate_def MS_PER_DAY_def MS_PER_MINUTE_def)
  have 5: "fst (attendance ?E' ?R ?s1) = ErrorResponse 400 ''Attendance already marked for today in this course''"
    by (simp add: handler_defs scenario_defs toUpperCase_ICT651)
  have 6: "fst (attendance_image ?E' ?R ?s1) = ErrorResponse 400 ''Attendance already marked for today in this course''"
    by (simp add: handler_defs scenario_defs toUpperCase_ICT651)
  have 7: "r_studentId ?R = ''S1''" "e_clock_today ?E' = at_clock 0 21 0 0"
    by (simp_all add: scenario_defs)
  note T = date_key_is_utc_day [of ?E ?R store0 ?E' ?R ?s1 0]
  from T [THEN conjunct1] 1 3
  have a: "\<exists>a. attendances (fst (snd (attendance ?E ?R store0))) = attendances store0 @ [a] \<and> a_date a = 0"
    by auto
  from T [THEN conjunct2, THEN conjunct1] 2 3
  have b: "\<exists>a. attendances (fst (snd (attendance_image ?E ?R store0))) = attendances store0 @ [a] \<and> a_date a = 0"
    by auto
  from T [THEN conjunct2, THEN conjunct2, THEN conjunct1] 5 7
  have c: "\<exists>b\<in>set (attendances ?s1). a_studentId b = ''S1'' \<and> a_date b = toISODate (at_clock 0 21 0 0)"
    by auto
  from 1 2 3 4 5 6 a b c show ?thesis by blast
qed

subsection \<open>The cosine similarity on degenerate and non-finite inputs\<close>





text \<open>
  Claim C5.  \<open>computeCosineSimilarity\<close> is to return 0 whenever a vector holds a
  non-finite value.  The loop tests \<open>Number.isNaN\<close> only: on a sample that holds
  Infinity the function returns NaN.  NaN is not below the threshold, so the request
  passes the verification and reaches the save, which the validation of
  \<open>confidenceScore\<close> refuses.
\<close>

theorem cosine_infinite_sample:
  "computeCosineSimilarity [Fin 1] [PosInf] = NaN
 \<and> computeCosineSimilarity reference_S [PosInf, Fin 0, Fin 0, Fin 0, Fin 0] = NaN
 \<and> \<not> js_lt NaN SIMILARITY_THRESHOLD
 \<and> attendance (env_at 0 (at_clock 0 9 10 0) (Fin 90) [])
       (request_S ''ICT651'' [PosInf, Fin 0, Fin 0, Fin 0, Fin 0]) store0
     = (ErrorResponse 500 ''Failed to mark attendance. Please try again.'', store0,
        [Db FindUser, Db FindCourse, Db FindAttendance, OracleCall, Db SaveAttendance])"
  by (simp add: handler_defs scenario_defs toUpperCase_ICT651)

subsection \<open>The range of the similarity\<close>









end
